theory Spec2Isabelle
  imports Complex_Main "HOL-Library.Sublist" "HOL-Library.AList"
begin

section \<open>Python strings\<close>

text \<open>
  A Python \<open>str\<close> is modelled as a \<open>string\<close> (a list of 8-bit characters), so the
  character classes below are the ASCII ones: \<open>\d\<close>, \<open>str.strip\<close>, \<open>str.lower\<close> and
  \<open>re.IGNORECASE\<close> also know the non-ASCII digits, spaces and letters of Unicode, which
  this character type does not hold.
\<close>

definition is_digit :: "char \<Rightarrow> bool" where
  "is_digit c = (c \<in> set ''0123456789'')"

definition is_space :: "char \<Rightarrow> bool" where
  "is_space c = (c \<in> set [CHR 0x09, CHR 0x0A, CHR 0x0B, CHR 0x0C, CHR 0x0D,
                            CHR 0x1C, CHR 0x1D, CHR 0x1E, CHR 0x1F, CHR 0x20])"

text \<open>\<open>s.strip()\<close>\<close>

definition strip :: "string \<Rightarrow> string" where
  "strip s = rev (dropWhile is_space (rev (dropWhile is_space s)))"

definition lower_char :: "char \<Rightarrow> char" where
  "lower_char c =
     (case map_of (zip ''ABCDEFGHIJKLMNOPQRSTUVWXYZ'' ''abcdefghijklmnopqrstuvwxyz'') c of
        Some d \<Rightarrow> d
      | None \<Rightarrow> c)"

text \<open>\<open>s.lower()\<close>\<close>

definition lower :: "string \<Rightarrow> string" where
  "lower s = map lower_char s"

text \<open>\<open>sub in s\<close> for two strings: \<open>sub\<close> occurs in \<open>s\<close> at some position.\<close>

fun contains :: "string \<Rightarrow> string \<Rightarrow> bool" where
  "contains sub [] = (sub = [])"
| "contains sub (c # cs) = (prefix sub (c # cs) \<or> contains sub cs)"

text \<open>
  \<open>re.compile(pat, re.IGNORECASE).search(s)\<close> for a pattern without metacharacters, which
  every pattern compiled with \<open>re.IGNORECASE\<close> in the two scrapers is: whether \<open>pat\<close>
  occurs in \<open>s\<close>, letter case ignored.
\<close>

definition re_search_ci :: "string \<Rightarrow> string \<Rightarrow> bool" where
  "re_search_ci pat s = contains (lower pat) (lower s)"

text \<open>
  \<open>s.replace(old, new)\<close>: every occurrence of \<open>old\<close>, found from the left and not
  overlapping, becomes \<open>new\<close>; an empty \<open>old\<close> matches before every character and at
  the end.
\<close>

function replace_nonempty :: "string \<Rightarrow> string \<Rightarrow> string \<Rightarrow> string" where
  "replace_nonempty old new s =
     (if s = [] \<or> old = [] then s
      else if prefix old s then new @ replace_nonempty old new (drop (length old) s)
      else hd s # replace_nonempty old new (tl s))"
  by pat_completeness auto
termination
  by (relation "measure (\<lambda>(old, new, s). length s)") auto

definition replace :: "string \<Rightarrow> string \<Rightarrow> string \<Rightarrow> string" where
  "replace old new s =
     (if old = [] then new @ concat (map (\<lambda>c. c # new) s) else replace_nonempty old new s)"

text \<open>\<open>sep.join(xs)\<close>\<close>

fun join :: "string \<Rightarrow> string list \<Rightarrow> string" where
  "join sep [] = []"
| "join sep [x] = x"
| "join sep (x # y # ys) = x @ sep @ join sep (y # ys)"

text \<open>The value of a string of decimal digits, most significant digit first.\<close>

definition digit_value :: "char \<Rightarrow> int" where
  "digit_value c = int (of_char c) - 48"

definition int_of_digits :: "string \<Rightarrow> int" where
  "int_of_digits ds = foldl (\<lambda>n c. 10 * n + digit_value c) 0 ds"

text \<open>The exceptions of the Python code that the model tells apart.\<close>

datatype py_error = JSONDecodeError | AttributeError | TypeError | ValueError | KeyError

text \<open>
  The most digits that \<open>int\<close> converts: \<open>sys.int_info.default_max_str_digits\<close> of
  Python 3.11, which the scrapers do not change. Leading zeros count.
\<close>

definition int_max_str_digits :: nat where
  "int_max_str_digits = 4300"

text \<open>
  \<open>int(s)\<close> for a string that holds digits only, which is what the scrapers pass: the
  empty string raises \<open>ValueError\<close>, and so does a string of more digits than the limit.
\<close>

definition py_int :: "string \<Rightarrow> py_error + int" where
  "py_int s =
     (if s \<noteq> [] \<and> list_all is_digit s \<and> length s \<le> int_max_str_digits
      then Inr (int_of_digits s) else Inl ValueError)"

text \<open>\<open>str(n)\<close> for a natural number \<open>n\<close>: its decimal digits.\<close>

definition digit_char :: "nat \<Rightarrow> char" where
  "digit_char d = ''0123456789'' ! d"

function str_nat :: "nat \<Rightarrow> string" where
  "str_nat n = (if n < 10 then [digit_char n] else str_nat (n div 10) @ [digit_char (n mod 10)])"
  by pat_completeness auto
termination
  by (relation "measure id") auto

subsection \<open>The regular expression of the workload\<close>

text \<open>
  \<open>re.search(r'PT(\d+)H', s)\<close>. \<open>match_PT_digits_H\<close> is the match that starts at the first
  character and returns group 1: after \<open>PT\<close> the greedy \<open>\d+\<close> takes the whole run of
  digits; giving digits back cannot help, since the character after a shorter run is a
  digit and not \<open>H\<close>. The search tries the start positions from the left.
\<close>

definition match_PT_digits_H :: "string \<Rightarrow> string option" where
  "match_PT_digits_H s =
     (if prefix ''PT'' s then
        (let ds = takeWhile is_digit (drop 2 s); r = dropWhile is_digit (drop 2 s)
         in if ds \<noteq> [] \<and> prefix ''H'' r then Some ds else None)
      else None)"

fun re_search_PT_digits_H :: "string \<Rightarrow> string option" where
  "re_search_PT_digits_H [] = None"
| "re_search_PT_digits_H (c # cs) =
     (case match_PT_digits_H (c # cs) of
        Some g \<Rightarrow> Some g
      | None \<Rightarrow> re_search_PT_digits_H cs)"

section \<open>JSON values\<close>

text \<open>
  What \<open>json.loads\<close> returns. An object is the list of its items, keys distinct (of a
  repeated key \<open>json.loads\<close> keeps the last value). A float is only tested for truth and
  handed on; the not-a-number and the infinities, all true, are not represented.
\<close>

datatype json =
    JNull
  | JBool bool
  | JInt int
  | JFloat real
  | JStr string
  | JArr "json list"
  | JObj "(string \<times> json) list"

text \<open>The truth value of a Python object, as \<open>if x:\<close> tests it.\<close>

fun truthy :: "json \<Rightarrow> bool" where
  "truthy JNull = False"
| "truthy (JBool b) = b"
| "truthy (JInt n) = (n \<noteq> 0)"
| "truthy (JFloat r) = (r \<noteq> 0)"
| "truthy (JStr s) = (s \<noteq> [])"
| "truthy (JArr xs) = (xs \<noteq> [])"
| "truthy (JObj kvs) = (kvs \<noteq> [])"

text \<open>\<open>x.get(key, default)\<close>: only a dict has the method.\<close>

fun py_get_default :: "json \<Rightarrow> string \<Rightarrow> json \<Rightarrow> py_error + json" where
  "py_get_default (JObj kvs) k d = Inr (case map_of kvs k of Some v \<Rightarrow> v | None \<Rightarrow> d)"
| "py_get_default _ k d = Inl AttributeError"

text \<open>\<open>x.get(key)\<close>\<close>

definition py_get :: "json \<Rightarrow> string \<Rightarrow> py_error + json" where
  "py_get x k = py_get_default x k JNull"

text \<open>Sequencing of two steps, the first of which may raise.\<close>

definition bind_err :: "py_error + 'a \<Rightarrow> ('a \<Rightarrow> py_error + 'b) \<Rightarrow> py_error + 'b" where
  "bind_err m f = (case m of Inl e \<Rightarrow> Inl e | Inr x \<Rightarrow> f x)"

section \<open>course\_scraper.py: the metadata of a course\<close>

text \<open>
  The dictionary \<open>course_info\<close>; each field is the key of the same name
  (\<open>c_type\<close> is the key \<open>type\<close>). \<open>source_url\<close> is set by the main loop only.
\<close>

record course_info =
  c_type :: json
  c_title :: json
  c_description :: json
  c_price :: json
  c_currency :: json
  c_courseWorkload_hours :: "int option"
  c_educationalLevel :: json
  c_skills :: "string list"
  c_detailed_description :: string
  c_exercises_count :: "int option"
  c_source_url :: "string option"

text \<open>
  Lines 44 to 48 of \<open>extract_course_data\<close>: the hours of a workload. \<open>re.search\<close> raises
  \<open>TypeError\<close> on a value that is not a string, and \<open>int(match.group(1))\<close> raises
  \<open>ValueError\<close> on a group of more digits than \<open>int\<close> converts.
\<close>

definition workload_hours :: "json \<Rightarrow> py_error + int option" where
  "workload_hours workload =
     (if truthy workload then
        (case workload of
           JStr s \<Rightarrow>
             (case re_search_PT_digits_H s of
                Some group1 \<Rightarrow> bind_err (py_int group1) (\<lambda>hours. Inr (Some hours))
              | None \<Rightarrow> Inr None)
         | _ \<Rightarrow> Inl TypeError)
      else Inr None)"

text \<open>Lines 31 to 34: price and currency from \<open>offers\<close>.\<close>

definition offers_price :: "json \<Rightarrow> py_error + (json \<times> json)" where
  "offers_price offers =
     (if truthy offers then
        bind_err (py_get offers ''price'') (\<lambda>p.
        bind_err (py_get offers ''priceCurrency'') (\<lambda>c. Inr (p, c)))
      else Inr (JNull, JNull))"

text \<open>Lines 37 to 42: the workload, from \<open>timeRequired\<close> or from the first course instance.\<close>

definition find_workload :: "json \<Rightarrow> py_error + json" where
  "find_workload json_ld_data =
     bind_err (py_get json_ld_data ''timeRequired'') (\<lambda>workload.
       if \<not> truthy workload then
         bind_err (py_get json_ld_data ''hasCourseInstance'') (\<lambda>course_instances.
           case course_instances of
             JArr (first # rest) \<Rightarrow> py_get first ''courseWorkload''
           | _ \<Rightarrow> Inr workload)
       else Inr workload)"

definition extract_course_data :: "json \<Rightarrow> py_error + course_info" where
  "extract_course_data json_ld_data =
     bind_err (py_get json_ld_data ''@type'') (\<lambda>ty.
     bind_err (py_get json_ld_data ''name'') (\<lambda>nm.
     bind_err (py_get json_ld_data ''description'') (\<lambda>de.
     bind_err (py_get json_ld_data ''educationalLevel'') (\<lambda>lv.
     bind_err (py_get json_ld_data ''offers'') (\<lambda>offers.
     bind_err (offers_price offers) (\<lambda>(p, c).
     bind_err (find_workload json_ld_data) (\<lambda>workload.
     bind_err (workload_hours workload) (\<lambda>h.
       Inr \<lparr> c_type = ty, c_title = nm, c_description = de, c_price = p, c_currency = c,
             c_courseWorkload_hours = h, c_educationalLevel = lv, c_skills = [],
             c_detailed_description = [], c_exercises_count = None,
             c_source_url = None \<rparr>))))))))"

section \<open>The parsed document\<close>

text \<open>
  The tree that \<open>BeautifulSoup(html_content, 'html.parser')\<close> builds: a node is a string
  of text or a tag with its name, its attributes and its children. The value of an
  attribute is a string; the value of \<open>class\<close> is the list of its words. The strings that
  \<open>get_text\<close> passes over (comments, and the text of a script or a style inside another
  tag) are not represented; the text of a script tag is its one child. The document
  itself is the list of its top-level nodes.
\<close>

datatype attr_value = AStr string | AList "string list"

datatype node = Text string | Elem string "(string \<times> attr_value) list" "node list"

text \<open>\<open>x.name\<close>: a string of text has none.\<close>

fun node_name :: "node \<Rightarrow> string option" where
  "node_name (Text s) = None"
| "node_name (Elem nm attrs cs) = Some nm"

fun children :: "node \<Rightarrow> node list" where
  "children (Text s) = []"
| "children (Elem nm attrs cs) = cs"

fun attr :: "node \<Rightarrow> string \<Rightarrow> attr_value option" where
  "attr (Text s) k = None"
| "attr (Elem nm attrs cs) k = map_of attrs k"

definition is_tag :: "string \<Rightarrow> node \<Rightarrow> bool" where
  "is_tag nm x = (node_name x = Some nm)"

text \<open>The strings of text at and below a node, in document order.\<close>

fun all_strings :: "node \<Rightarrow> string list" and all_strings_list :: "node list \<Rightarrow> string list" where
  "all_strings (Text s) = [s]"
| "all_strings (Elem nm attrs cs) = all_strings_list cs"
| "all_strings_list [] = []"
| "all_strings_list (c # cs) = all_strings c @ all_strings_list cs"

text \<open>\<open>x.get_text()\<close>\<close>

definition get_text :: "node \<Rightarrow> string" where
  "get_text x = concat (all_strings x)"

text \<open>
  \<open>x.get_text(strip=True)\<close>: every string is stripped, the strings that become empty are
  left out, and the rest is joined with nothing in between.
\<close>

definition get_text_strip :: "node \<Rightarrow> string" where
  "get_text_strip x = concat (filter (\<lambda>s. s \<noteq> []) (map strip (all_strings x)))"

text \<open>
  \<open>x.string\<close>: the text of a string; of a tag with exactly one child, the \<open>string\<close> of
  that child; none for any other tag.
\<close>

fun node_string :: "node \<Rightarrow> string option" where
  "node_string (Text s) = Some s"
| "node_string (Elem nm attrs [c]) = node_string c"
| "node_string (Elem nm attrs cs) = None"

text \<open>The nodes below a node, in document order (\<open>x.descendants\<close>).\<close>

fun descendants :: "node \<Rightarrow> node list" and descendants_list :: "node list \<Rightarrow> node list" where
  "descendants (Text s) = []"
| "descendants (Elem nm attrs cs) = descendants_list cs"
| "descendants_list [] = []"
| "descendants_list (c # cs) = c # descendants c @ descendants_list cs"

text \<open>\<open>x.find_all(nm)\<close>: the tags of that name below \<open>x\<close>.\<close>

definition find_all_named :: "string \<Rightarrow> node \<Rightarrow> node list" where
  "find_all_named nm x = filter (is_tag nm) (descendants x)"

text \<open>\<open>x.find_all(nm, recursive=False)\<close>: the children of \<open>x\<close> that are tags of that name.\<close>

definition find_children_named :: "string \<Rightarrow> node \<Rightarrow> node list" where
  "find_children_named nm x = filter (is_tag nm) (children x)"

text \<open>
  A place in the document: a node with the names of the tags around it (the nearest
  first) and the siblings after it. \<open>walk anc xs\<close> lists the places of the nodes \<open>xs\<close>,
  which stand side by side below the tags \<open>anc\<close>, and of all nodes below them, in
  document order.
\<close>

type_synonym place = "string list \<times> node \<times> node list"

fun walk :: "string list \<Rightarrow> node list \<Rightarrow> place list" where
  "walk anc [] = []"
| "walk anc (c # cs) =
     (anc, c, cs) #
     (case c of Text s \<Rightarrow> [] | Elem nm attrs ch \<Rightarrow> walk (nm # anc) ch) @ walk anc cs"

definition place_node :: "place \<Rightarrow> node" where
  "place_node p = fst (snd p)"

definition place_ancestors :: "place \<Rightarrow> string list" where
  "place_ancestors p = fst p"

definition place_next_siblings :: "place \<Rightarrow> node list" where
  "place_next_siblings p = snd (snd p)"

text \<open>The places of a whole document; the tree's root is named \<open>[document]\<close>.\<close>

definition soup_places :: "node list \<Rightarrow> place list" where
  "soup_places soup = walk [''[document]''] soup"

text \<open>The places of the tags below the tag \<open>x\<close> that stands below the tags \<open>anc\<close>.\<close>

definition tag_places_below :: "string list \<Rightarrow> node \<Rightarrow> place list" where
  "tag_places_below anc x =
     (case x of
        Text s \<Rightarrow> []
      | Elem nm attrs cs \<Rightarrow> filter (\<lambda>p. node_name (place_node p) \<noteq> None) (walk (nm # anc) cs))"

text \<open>
  The first place of a list that satisfies \<open>P\<close>, with the places after it: \<open>find\<close> on a
  document, and what \<open>find_next\<close> then searches.
\<close>

fun find_from :: "(place \<Rightarrow> bool) \<Rightarrow> place list \<Rightarrow> (place \<times> place list) option" where
  "find_from P [] = None"
| "find_from P (p # ps) = (if P p then Some (p, ps) else find_from P ps)"

text \<open>
  How an attribute value matches a string and a compiled pattern: a list of words matches
  when one of its words does, or the words joined by one space do.
\<close>

fun attr_equals :: "string \<Rightarrow> attr_value \<Rightarrow> bool" where
  "attr_equals t (AStr v) = (v = t)"
| "attr_equals t (AList vs) = (t \<in> set vs \<or> join '' '' vs = t)"

fun attr_search_ci :: "string \<Rightarrow> attr_value \<Rightarrow> bool" where
  "attr_search_ci pat (AStr v) = re_search_ci pat v"
| "attr_search_ci pat (AList vs) = ((\<exists>v \<in> set vs. re_search_ci pat v) \<or> re_search_ci pat (join '' '' vs))"

text \<open>A tag of name \<open>nm\<close> whose attribute \<open>k\<close> matches the pattern.\<close>

definition tag_with_attr_re :: "string \<Rightarrow> string \<Rightarrow> string \<Rightarrow> node \<Rightarrow> bool" where
  "tag_with_attr_re nm k pat x =
     (is_tag nm x \<and> (case attr x k of Some v \<Rightarrow> attr_search_ci pat v | None \<Rightarrow> False))"

text \<open>A tag of name \<open>nm\<close> whose \<open>string\<close> matches the pattern (\<open>find(nm, string=pattern)\<close>).\<close>

definition tag_with_string_re :: "string \<Rightarrow> string \<Rightarrow> node \<Rightarrow> bool" where
  "tag_with_string_re nm pat x =
     (is_tag nm x \<and> (case node_string x of Some s \<Rightarrow> re_search_ci pat s | None \<Rightarrow> False))"

text \<open>
  The heading of a section, as both scrapers look for it: the first \<open>h2\<close> whose string
  matches \<open>label\<close>; if there is none, the first \<open>h2\<close> whose \<open>id\<close> matches \<open>token\<close>, or else
  the first whose \<open>class\<close> does. A tag is always true, so \<open>or\<close> and \<open>if not\<close> only test
  whether one was found.
\<close>

definition find_heading :: "string \<Rightarrow> string \<Rightarrow> node list \<Rightarrow> (place \<times> place list) option" where
  "find_heading label token soup =
     (case find_from (\<lambda>p. tag_with_string_re ''h2'' label (place_node p)) (soup_places soup) of
        Some r \<Rightarrow> Some r
      | None \<Rightarrow>
          (case find_from (\<lambda>p. tag_with_attr_re ''h2'' ''id'' token (place_node p)) (soup_places soup) of
             Some r \<Rightarrow> Some r
           | None \<Rightarrow>
               find_from (\<lambda>p. tag_with_attr_re ''h2'' ''class'' token (place_node p)) (soup_places soup)))"

section \<open>Both scrapers: the skills\<close>

text \<open>
  \<open>extract_skills\<close>, the same function in both files (the track scraper adds tests that a
  found node is a tag, which it always is): the texts of the list items of the first \<open>ul\<close>
  after the heading, the empty ones left out.
\<close>

definition extract_skills :: "node list \<Rightarrow> string list" where
  "extract_skills soup =
     (case find_heading ''Skills you will gain'' ''skillsSection'' soup of
        Some (skills_heading, after) \<Rightarrow>
          (case find_from (\<lambda>p. is_tag ''ul'' (place_node p)) after of
             Some (skills_list, rest) \<Rightarrow>
               filter (\<lambda>skill_text. skill_text \<noteq> [])
                 (map get_text_strip (find_all_named ''li'' (place_node skills_list)))
           | None \<Rightarrow> [])
      | None \<Rightarrow> [])"

section \<open>track\_scraper.py: the markdown of a content section\<close>

text \<open>The separator of the lines of a rendered section: two newlines.\<close>

definition blank_line :: string where
  "blank_line = [CHR 0x0A, CHR 0x0A]"

text \<open>\<open>x.find(nm)\<close>: the first tag of that name below \<open>x\<close>.\<close>

definition find_named :: "string \<Rightarrow> node \<Rightarrow> node option" where
  "find_named nm x = List.find (is_tag nm) (descendants x)"

text \<open>\<open>li.find_all(['b', 'strong'])\<close>\<close>

definition bold_elements :: "node \<Rightarrow> node list" where
  "bold_elements li = filter (\<lambda>x. is_tag ''b'' x \<or> is_tag ''strong'' x) (descendants li)"

text \<open>
  The text of a list item with its bold parts marked: for each bold tag in turn, every
  occurrence of its text in the item's text is wrapped in \<open>**\<close>.
\<close>

definition li_markdown :: "node \<Rightarrow> string" where
  "li_markdown li =
     fold (\<lambda>bold_elem li_text.
             let bold_text = get_text_strip bold_elem
             in replace bold_text (''**'' @ bold_text @ ''**'') li_text)
       (bold_elements li) (get_text_strip li)"

definition ul_items :: "node \<Rightarrow> string list" where
  "ul_items child =
     map (\<lambda>li. ''- '' @ li_markdown li)
       (filter (\<lambda>li. get_text_strip li \<noteq> []) (find_children_named ''li'' child))"

text \<open>\<open>enumerate(lis, 1)\<close> numbers every item, also the ones whose text is empty.\<close>

definition ol_items :: "node \<Rightarrow> string list" where
  "ol_items child =
     map (\<lambda>(i, li). str_nat i @ ''. '' @ li_markdown li)
       (filter (\<lambda>(i, li). get_text_strip li \<noteq> [])
          (List.enumerate 1 (find_children_named ''li'' child)))"

text \<open>\<open>if item not in markdown_lines: markdown_lines.append(item)\<close>\<close>

definition append_new :: "string \<Rightarrow> string list \<Rightarrow> string list" where
  "append_new item markdown_lines =
     (if item \<notin> set markdown_lines then markdown_lines @ [item] else markdown_lines)"

text \<open>
  One round of the loop of \<open>convert_html_to_markdown\<close> over the tags below the section,
  for the tag at place \<open>p\<close>. \<open>child.find_parent('li')\<close> looks at every tag around the
  child, those around the section included.
\<close>

definition track_step :: "place \<Rightarrow> string list \<Rightarrow> string list" where
  "track_step p markdown_lines =
     (let child = place_node p; text = get_text_strip child in
      if is_tag ''h2'' child then
        (if text \<noteq> [] \<and> (''## '' @ text) \<notin> set markdown_lines
         then markdown_lines @ [''## '' @ text] else markdown_lines)
      else if is_tag ''h3'' child then
        (if text \<noteq> [] \<and> (''### '' @ text) \<notin> set markdown_lines
         then markdown_lines @ [''### '' @ text] else markdown_lines)
      else if is_tag ''p'' child then
        (if text \<noteq> [] \<and> find_named ''picture'' child = None \<and> find_named ''img'' child = None
         then (if text \<notin> set markdown_lines then markdown_lines @ [text] else markdown_lines)
         else markdown_lines)
      else if is_tag ''ul'' child \<and> ''li'' \<notin> set (place_ancestors p) then
        fold append_new (ul_items child) markdown_lines
      else if is_tag ''ol'' child \<and> ''li'' \<notin> set (place_ancestors p) then
        fold append_new (ol_items child) markdown_lines
      else markdown_lines)"

text \<open>The list \<open>markdown_lines\<close> after the loop; \<open>anc\<close> names the tags around the section.\<close>

definition markdown_lines_track :: "string list \<Rightarrow> node \<Rightarrow> string list" where
  "markdown_lines_track anc element = fold track_step (tag_places_below anc element) []"

text \<open>The last loop: a line is kept unless it has been seen.\<close>

fun unique_lines :: "string set \<Rightarrow> string list \<Rightarrow> string list" where
  "unique_lines seen [] = []"
| "unique_lines seen (line # ls) =
     (if line \<notin> seen then line # unique_lines (insert line seen) ls else unique_lines seen ls)"

definition rendered_lines_track :: "string list \<Rightarrow> node \<Rightarrow> string list" where
  "rendered_lines_track anc element = unique_lines {} (markdown_lines_track anc element)"

definition convert_html_to_markdown_track :: "string list \<Rightarrow> node \<Rightarrow> string" where
  "convert_html_to_markdown_track anc element = join blank_line (rendered_lines_track anc element)"

text \<open>A \<open>div\<close> whose class matches the pattern.\<close>

definition div_with_class :: "string \<Rightarrow> place \<Rightarrow> bool" where
  "div_with_class pat p = tag_with_attr_re ''div'' ''class'' pat (place_node p)"

definition extract_detailed_description_track :: "node list \<Rightarrow> string" where
  "extract_detailed_description_track soup =
     (case find_heading ''Description'' ''description'' soup of
        Some (desc_heading, after) \<Rightarrow>
          (case (case find_from (div_with_class ''productDescriptionSection__content'') after of
                   Some r \<Rightarrow> Some r
                 | None \<Rightarrow> find_from (div_with_class ''content'') after) of
             Some (content_section, rest) \<Rightarrow>
               convert_html_to_markdown_track (place_ancestors content_section)
                 (place_node content_section)
           | None \<Rightarrow> [])
      | None \<Rightarrow> [])"

section \<open>course\_scraper.py: the markdown of a content section\<close>

text \<open>
  One round of the loop of \<open>convert_html_to_markdown\<close> over the children of the element,
  strings of text included: these have no name and fall to the last branch.
\<close>

definition course_step :: "node \<Rightarrow> string list \<Rightarrow> string list" where
  "course_step child markdown_lines =
     (if is_tag ''h2'' child then markdown_lines @ [''## '' @ get_text_strip child]
      else if is_tag ''h3'' child then markdown_lines @ [''### '' @ get_text_strip child]
      else if is_tag ''p'' child then
        (let text = get_text_strip child in
         if text \<noteq> [] \<and> \<not> (length (find_all_named ''img'' child) > 0 \<and> text = [])
         then markdown_lines @ [text] else markdown_lines)
      else if is_tag ''ul'' child then
        markdown_lines @
          map (\<lambda>li_text. ''- '' @ li_text)
            (filter (\<lambda>li_text. li_text \<noteq> []) (map get_text_strip (find_all_named ''li'' child)))
      else if is_tag ''ol'' child then
        markdown_lines @
          map (\<lambda>(i, li_text). str_nat i @ ''. '' @ li_text)
            (filter (\<lambda>(i, li_text). li_text \<noteq> [])
               (List.enumerate 1 (map get_text_strip (find_all_named ''li'' child))))
      else
        (let text = get_text_strip child in
         if text \<noteq> [] then markdown_lines @ [text] else markdown_lines))"

definition markdown_lines_course :: "node \<Rightarrow> string list" where
  "markdown_lines_course element = fold course_step (children element) []"

definition convert_html_to_markdown_course :: "node \<Rightarrow> string" where
  "convert_html_to_markdown_course element = join blank_line (markdown_lines_course element)"

definition extract_detailed_description_course :: "node list \<Rightarrow> string" where
  "extract_detailed_description_course soup =
     (case find_heading ''Description'' ''description'' soup of
        Some (desc_heading, after) \<Rightarrow>
          (case (case find_from (div_with_class ''content'') after of
                   Some r \<Rightarrow> Some r
                 | None \<Rightarrow> find_from (div_with_class ''productDescriptionSection__content'') after) of
             Some (content_section, rest) \<Rightarrow>
               join blank_line
                 (filter (\<lambda>div_markdown. strip div_markdown \<noteq> [])
                    (map convert_html_to_markdown_course
                       (filter (tag_with_attr_re ''div'' ''class'' ''course_information'')
                          (descendants (place_node content_section)))))
           | None \<Rightarrow> [])
      | None \<Rightarrow> [])"

section \<open>course\_scraper.py: the number of exercises\<close>

definition is_label_span :: "place \<Rightarrow> bool" where
  "is_label_span p =
     tag_with_attr_re ''span'' ''class'' ''productSummarySection__itemLabel'' (place_node p)"

definition is_value_span :: "node \<Rightarrow> bool" where
  "is_value_span x = tag_with_attr_re ''span'' ''class'' ''productSummarySection__itemValue'' x"

text \<open>Whether a label names the exercises.\<close>

definition is_exercises_label :: "node \<Rightarrow> bool" where
  "is_exercises_label label_span =
     (let label_text = lower (get_text_strip label_span)
      in contains ''coding challenges'' label_text \<or> contains ''exercises'' label_text)"

text \<open>
  The loop over the labels. \<open>find_next_sibling\<close> gives the first value span among the
  siblings after the label; \<open>re.sub(r'\D', '', text)\<close> keeps the digits; \<open>int\<close> raises
  \<open>ValueError\<close> when none is left or when there are more than it converts, and the loop
  goes on with the next label.
\<close>

fun exercises_loop :: "place list \<Rightarrow> int option" where
  "exercises_loop [] = None"
| "exercises_loop (label_span # summary_items) =
     (if is_exercises_label (place_node label_span) then
        (case List.find is_value_span (place_next_siblings label_span) of
           Some value_span \<Rightarrow>
             (case py_int (filter is_digit (get_text_strip value_span)) of
                Inr exercises_count \<Rightarrow> Some exercises_count
              | Inl e \<Rightarrow> exercises_loop summary_items)
         | None \<Rightarrow> exercises_loop summary_items)
      else exercises_loop summary_items)"

definition extract_exercises_count :: "node list \<Rightarrow> int option" where
  "extract_exercises_count soup = exercises_loop (filter is_label_span (soup_places soup))"

section \<open>course\_scraper.py: the JSON-LD blocks\<close>

text \<open>\<open>soup.find_all('script', type='application/ld+json')\<close>\<close>

definition is_ld_json_script :: "node \<Rightarrow> bool" where
  "is_ld_json_script x =
     (is_tag ''script'' x \<and>
      (case attr x ''type'' of Some v \<Rightarrow> attr_equals ''application/ld+json'' v | None \<Rightarrow> False))"

definition ld_json_scripts :: "node list \<Rightarrow> node list" where
  "ld_json_scripts soup = filter is_ld_json_script (descendants_list soup)"

text \<open>
  \<open>json.loads\<close> is a parameter of the model, \<open>loads\<close>: it gives the value of a text, or
  none where \<open>json.loads\<close> raises \<open>JSONDecodeError\<close>.

  The body of the \<open>try\<close> for one script. The list \<open>courses\<close> is extended in place, so when
  an exception ends the block the courses appended before it stay; the result is the
  list and the exception, if one was raised. \<open>json.loads(None)\<close> raises \<open>TypeError\<close>.
\<close>

fun course_items :: "json list \<Rightarrow> course_info list \<Rightarrow> course_info list \<times> py_error option" where
  "course_items [] courses = (courses, None)"
| "course_items (item # items) courses =
     (case py_get item ''@type'' of
        Inl e \<Rightarrow> (courses, Some e)
      | Inr ty \<Rightarrow>
          if ty = JStr ''Course'' then
            (case extract_course_data item of
               Inl e \<Rightarrow> (courses, Some e)
             | Inr course \<Rightarrow> course_items items (courses @ [course]))
          else course_items items courses)"

definition script_block ::
  "(string \<Rightarrow> json option) \<Rightarrow> node \<Rightarrow> course_info list \<Rightarrow> course_info list \<times> py_error option" where
  "script_block loads script courses =
     (case node_string script of
        None \<Rightarrow> (courses, Some TypeError)
      | Some text \<Rightarrow>
          (case loads text of
             None \<Rightarrow> (courses, Some JSONDecodeError)
           | Some json_data \<Rightarrow>
               (case json_data of
                  JArr items \<Rightarrow> course_items items courses
                | _ \<Rightarrow>
                    (case py_get json_data ''@type'' of
                       Inl e \<Rightarrow> (courses, Some e)
                     | Inr ty \<Rightarrow>
                         if ty = JStr ''Course'' then
                           (case extract_course_data json_data of
                              Inl e \<Rightarrow> (courses, Some e)
                            | Inr course \<Rightarrow> (courses @ [course], None))
                         else (courses, None)))))"

text \<open>
  The loop over the scripts, with the list of courses and the exceptions printed so
  far. \<open>except (json.JSONDecodeError, AttributeError)\<close> prints the exception and goes on
  with the next script; any other exception leaves the function.
\<close>

fun scripts_loop ::
  "(string \<Rightarrow> json option) \<Rightarrow> node list \<Rightarrow> course_info list \<Rightarrow> py_error list \<Rightarrow>
   py_error + (course_info list \<times> py_error list)" where
  "scripts_loop loads [] courses printed = Inr (courses, printed)"
| "scripts_loop loads (script # scripts) courses printed =
     (case script_block loads script courses of
        (courses', None) \<Rightarrow> scripts_loop loads scripts courses' printed
      | (courses', Some e) \<Rightarrow>
          if e = JSONDecodeError \<or> e = AttributeError
          then scripts_loop loads scripts courses' (printed @ [e])
          else Inl e)"

definition find_course_json_ld ::
  "(string \<Rightarrow> json option) \<Rightarrow> node list \<Rightarrow> py_error + (course_info list \<times> py_error list)" where
  "find_course_json_ld loads soup = scripts_loop loads (ld_json_scripts soup) [] []"

section \<open>course\_scraper.py: the loop over the documents\<close>

text \<open>The loop of lines 219 to 224 over the courses of one document.\<close>

fun assign_loop ::
  "string \<Rightarrow> string list \<Rightarrow> string \<Rightarrow> int option \<Rightarrow> course_info list \<Rightarrow> course_info list \<Rightarrow>
   course_info list" where
  "assign_loop url skills detailed_desc exercises_count [] all_courses = all_courses"
| "assign_loop url skills detailed_desc exercises_count (course # courses) all_courses =
     assign_loop url skills detailed_desc exercises_count courses
       (all_courses @
        [course\<lparr> c_source_url := Some url, c_skills := skills,
                 c_detailed_description := detailed_desc,
                 c_exercises_count := exercises_count \<rparr>])"

text \<open>
  Lines 211 to 224 for one fetched document: the list \<open>all_courses\<close> afterwards. An
  exception of \<open>find_course_json_ld\<close> is not a \<open>RequestException\<close> and leaves the loop.
\<close>

definition process_document ::
  "(string \<Rightarrow> json option) \<Rightarrow> string \<Rightarrow> node list \<Rightarrow> course_info list \<Rightarrow>
   py_error + course_info list" where
  "process_document loads url soup all_courses =
     (case find_course_json_ld loads soup of
        Inl e \<Rightarrow> Inl e
      | Inr (courses, printed) \<Rightarrow>
          if courses \<noteq> [] then
            (let skills = extract_skills soup;
                 detailed_desc = extract_detailed_description_course soup;
                 exercises_count = extract_exercises_count soup
             in Inr (assign_loop url skills detailed_desc exercises_count courses all_courses))
          else Inr all_courses)"

section \<open>track\_scraper.py: the information of a track\<close>

text \<open>
  The dictionary \<open>track_info\<close>; each field is the key of the same name. \<open>url\<close> is set by
  \<open>main\<close> only.
\<close>

record track_info =
  t_name :: json
  t_description :: json
  t_detailed_description :: string
  t_price :: json
  t_hours :: string
  t_level :: json
  t_dialect :: string
  t_purpose :: string
  t_skills :: "string list"
  t_course_urls :: "json list"
  t_url :: "string option"

text \<open>
  \<open>sub in x\<close> for a string \<open>sub\<close>: part of a string, element of a list, key of a dict;
  \<open>TypeError\<close> for a value that holds nothing.
\<close>

fun py_in :: "string \<Rightarrow> json \<Rightarrow> py_error + bool" where
  "py_in sub (JStr s) = Inr (contains sub s)"
| "py_in sub (JArr xs) = Inr (JStr sub \<in> set xs)"
| "py_in sub (JObj kvs) = Inr (sub \<in> set (map fst kvs))"
| "py_in sub _ = Inl TypeError"

text \<open>What \<open>for x in v\<close> runs over: elements, characters or keys.\<close>

fun py_iter :: "json \<Rightarrow> py_error + json list" where
  "py_iter (JArr xs) = Inr xs"
| "py_iter (JStr s) = Inr (map (\<lambda>c. JStr [c]) s)"
| "py_iter (JObj kvs) = Inr (map (\<lambda>kv. JStr (fst kv)) kvs)"
| "py_iter _ = Inl TypeError"

text \<open>\<open>x[key]\<close> for a string \<open>key\<close>\<close>

fun py_item :: "json \<Rightarrow> string \<Rightarrow> py_error + json" where
  "py_item (JObj kvs) k = (case map_of kvs k of Some v \<Rightarrow> Inr v | None \<Rightarrow> Inl KeyError)"
| "py_item _ k = Inl TypeError"

text \<open>Lines 167 to 174: the dialect.\<close>

definition track_dialect :: "json \<Rightarrow> py_error + string" where
  "track_dialect track_name =
     bind_err (py_in ''MySQL'' track_name) (\<lambda>mysql.
       if mysql then Inr ''MySQL''
       else bind_err (py_in ''PostgreSQL'' track_name) (\<lambda>postgres.
         if postgres then Inr ''PostgreSQL''
         else bind_err (py_in ''SQL Server'' track_name) (\<lambda>sql_server.
           if sql_server then Inr ''SQL Server'' else Inr ''Standard SQL'')))"

text \<open>Line 177: the purpose.\<close>

definition track_purpose :: "json \<Rightarrow> py_error + string" where
  "track_purpose track_name =
     bind_err (py_in ''Practice'' track_name) (\<lambda>practice.
       Inr (if practice then ''practice'' else ''learn''))"

text \<open>Line 184: the hours. Only a string has \<open>replace\<close>.\<close>

definition track_hours :: "json \<Rightarrow> py_error + string" where
  "track_hours time_required =
     (case time_required of
        JStr s \<Rightarrow> Inr (replace ''H'' [] (replace ''PT'' [] s))
      | _ \<Rightarrow> Inl AttributeError)"

text \<open>Lines 193 to 196: the URLs of the member courses.\<close>

fun course_urls_loop :: "json list \<Rightarrow> json list \<Rightarrow> py_error + json list" where
  "course_urls_loop [] course_urls = Inr course_urls"
| "course_urls_loop (course # courses) course_urls =
     bind_err (py_in ''url'' course) (\<lambda>has_url.
       if has_url then
         bind_err (py_item course ''url'') (\<lambda>u. course_urls_loop courses (course_urls @ [u]))
       else course_urls_loop courses course_urls)"

definition track_course_urls :: "json \<Rightarrow> py_error + json list" where
  "track_course_urls json_data =
     bind_err (py_in ''hasPart'' json_data) (\<lambda>has_part.
       if has_part then
         bind_err (py_item json_data ''hasPart'') (\<lambda>parts.
         bind_err (py_iter parts) (\<lambda>courses. course_urls_loop courses []))
       else Inr [])"

text \<open>Lines 165 to 198, for the parsed JSON data and the two texts taken from the HTML.\<close>

definition track_info_of :: "string list \<Rightarrow> string \<Rightarrow> json \<Rightarrow> py_error + track_info" where
  "track_info_of skills detailed_description json_data =
     bind_err (py_get_default json_data ''name'' (JStr [])) (\<lambda>track_name.
     bind_err (track_dialect track_name) (\<lambda>dialect.
     bind_err (track_purpose track_name) (\<lambda>purpose.
     bind_err (py_get_default json_data ''description'' (JStr [])) (\<lambda>description.
     bind_err (py_get_default json_data ''offers'' (JObj [])) (\<lambda>offers.
     bind_err (py_get_default offers ''price'' (JStr [])) (\<lambda>price.
     bind_err (py_get_default json_data ''timeRequired'' (JStr [])) (\<lambda>time_required.
     bind_err (track_hours time_required) (\<lambda>hours.
     bind_err (py_get_default json_data ''educationalLevel'' (JStr [])) (\<lambda>level.
     bind_err (track_course_urls json_data) (\<lambda>course_urls.
       Inr \<lparr> t_name = track_name, t_description = description,
             t_detailed_description = detailed_description, t_price = price,
             t_hours = hours, t_level = level, t_dialect = dialect, t_purpose = purpose,
             t_skills = skills, t_course_urls = course_urls, t_url = None \<rparr>))))))))))"

text \<open>
  \<open>extract_track_info\<close>. The whole body stands in a \<open>try\<close> whose
  \<open>except (json.JSONDecodeError, AttributeError, KeyError)\<close> returns \<open>None\<close>; any other
  exception leaves the function.
\<close>

definition extract_track_info ::
  "(string \<Rightarrow> json option) \<Rightarrow> node list \<Rightarrow> py_error + track_info option" where
  "extract_track_info loads soup =
     (let script_tags = ld_json_scripts soup in
      if length script_tags < 2 then Inr None
      else
        (let script_tag = script_tags ! 1 in
         case loads (get_text script_tag) of
           None \<Rightarrow> Inr None
         | Some json_data \<Rightarrow>
             (case track_info_of (extract_skills soup) (extract_detailed_description_track soup)
                     json_data of
                Inr track_info \<Rightarrow> Inr (Some track_info)
              | Inl e \<Rightarrow>
                  if e = JSONDecodeError \<or> e = AttributeError \<or> e = KeyError then Inr None
                  else Inl e)))"

text \<open>
  Lines 246 to 249 of \<open>main\<close> for one fetched document: the list \<open>tracks_data\<close>
  afterwards.
\<close>

definition track_main_step ::
  "(string \<Rightarrow> json option) \<Rightarrow> string \<Rightarrow> node list \<Rightarrow> track_info list \<Rightarrow>
   py_error + track_info list" where
  "track_main_step loads url soup tracks_data =
     (case extract_track_info loads soup of
        Inl e \<Rightarrow> Inl e
      | Inr None \<Rightarrow> Inr tracks_data
      | Inr (Some track_info) \<Rightarrow> Inr (tracks_data @ [track_info\<lparr> t_url := Some url \<rparr>]))"

section \<open>Both scrapers: the CSV table\<close>

text \<open>
  A table is the list of the rows handed to the CSV writer, a row the list of its
  cells, and a cell the Python value written (a string is a \<open>JStr\<close>, \<open>None\<close> is \<open>JNull\<close>).
  How the \<open>csv\<close> module turns a cell into text is not part of the model.
\<close>

definition fieldnames :: "string list" where
  "fieldnames = [''title'', ''url'', ''exercises'', ''dialect'', ''hours'', ''kind'',
     ''description'', ''detailed_description'', ''skills'', ''purpose'', ''level'', ''price'']"

text \<open>
  \<open>csv.DictWriter\<close> with its defaults: a row is written in the order of the field names,
  a missing key as the empty string; a key that is no field name raises \<open>ValueError\<close>. A
  dictionary is given as the list of its items.
\<close>

definition dict_to_list :: "string list \<Rightarrow> (string \<times> json) list \<Rightarrow> py_error + json list" where
  "dict_to_list names rowdict =
     (if \<exists>k \<in> set (map fst rowdict). k \<notin> set names then Inl ValueError
      else Inr (map (\<lambda>key. case map_of rowdict key of Some v \<Rightarrow> v | None \<Rightarrow> JStr []) names))"

definition writeheader :: "string list \<Rightarrow> json list" where
  "writeheader names = map JStr names"

subsection \<open>course\_scraper.py, lines 266 to 312\<close>

text \<open>
  \<open>str_of\<close> stands for Python's \<open>str\<close> on the values of a price and a currency; it is a
  parameter of the model.
\<close>

definition course_skills_text :: "course_info \<Rightarrow> string" where
  "course_skills_text course =
     (if c_skills course \<noteq> [] then join [CHR 0x0A] (c_skills course) else [])"

definition course_price_text :: "(json \<Rightarrow> string) \<Rightarrow> course_info \<Rightarrow> string" where
  "course_price_text str_of course =
     (if truthy (c_price course) \<and> truthy (c_currency course)
      then str_of (c_price course) @ '' '' @ str_of (c_currency course)
      else if truthy (c_price course) then str_of (c_price course)
      else [])"

definition int_cell :: "int option \<Rightarrow> json" where
  "int_cell v = (case v of Some n \<Rightarrow> JInt n | None \<Rightarrow> JNull)"

definition course_row_data :: "(json \<Rightarrow> string) \<Rightarrow> course_info \<Rightarrow> (string \<times> json) list" where
  "course_row_data str_of course =
     [(''title'', c_title course),
      (''url'', JStr (case c_source_url course of Some u \<Rightarrow> u | None \<Rightarrow> [])),
      (''exercises'', int_cell (c_exercises_count course)),
      (''dialect'', JStr []),
      (''hours'', int_cell (c_courseWorkload_hours course)),
      (''kind'', JStr ''Course''),
      (''description'', c_description course),
      (''detailed_description'', JStr (c_detailed_description course)),
      (''skills'', JStr (course_skills_text course)),
      (''purpose'', JStr []),
      (''level'', c_educationalLevel course),
      (''price'', JStr (course_price_text str_of course))]"

fun write_courses ::
  "(json \<Rightarrow> string) \<Rightarrow> course_info list \<Rightarrow> json list list \<Rightarrow> py_error + json list list" where
  "write_courses str_of [] rows = Inr rows"
| "write_courses str_of (course # all_courses) rows =
     bind_err (dict_to_list fieldnames (course_row_data str_of course)) (\<lambda>row.
       write_courses str_of all_courses (rows @ [row]))"

text \<open>The table written, or none when \<open>all_courses\<close> is empty and no file is created.\<close>

definition export_courses ::
  "(json \<Rightarrow> string) \<Rightarrow> course_info list \<Rightarrow> py_error + json list list option" where
  "export_courses str_of all_courses =
     (if all_courses \<noteq> [] then
        bind_err (write_courses str_of all_courses [writeheader fieldnames]) (\<lambda>rows.
          Inr (Some rows))
      else Inr None)"

subsection \<open>track\_scraper.py, \<open>save_tracks_to_csv\<close>\<close>

definition track_skills_str :: "track_info \<Rightarrow> string" where
  "track_skills_str track = (if t_skills track \<noteq> [] then join '', '' (t_skills track) else [])"

text \<open>The row of a track; \<open>track['url']\<close> raises \<open>KeyError\<close> when the key was never set.\<close>

definition track_row :: "track_info \<Rightarrow> py_error + (string \<times> json) list" where
  "track_row track =
     (case t_url track of
        None \<Rightarrow> Inl KeyError
      | Some url \<Rightarrow>
          Inr [(''title'', t_name track),
               (''url'', JStr url),
               (''exercises'', JStr []),
               (''dialect'', JStr (t_dialect track)),
               (''hours'', JStr (t_hours track)),
               (''kind'', JStr ''Track''),
               (''description'', t_description track),
               (''detailed_description'', JStr (t_detailed_description track)),
               (''skills'', JStr (track_skills_str track)),
               (''purpose'', JStr (t_purpose track)),
               (''level'', t_level track),
               (''price'', t_price track)])"

fun write_tracks :: "track_info list \<Rightarrow> json list list \<Rightarrow> py_error + json list list" where
  "write_tracks [] rows = Inr rows"
| "write_tracks (track # tracks_data) rows =
     bind_err (track_row track) (\<lambda>row.
     bind_err (dict_to_list fieldnames row) (\<lambda>cells.
       write_tracks tracks_data (rows @ [cells])))"

definition save_tracks_to_csv :: "track_info list \<Rightarrow> py_error + json list list" where
  "save_tracks_to_csv tracks_data = write_tracks tracks_data [writeheader fieldnames]"

text \<open>Lines 282 and 283 of \<open>main\<close>: the table is written only for a non-empty list.\<close>

definition export_tracks :: "track_info list \<Rightarrow> py_error + json list list option" where
  "export_tracks tracks_data =
     (if tracks_data \<noteq> [] then
        bind_err (save_tracks_to_csv tracks_data) (\<lambda>rows. Inr (Some rows))
      else Inr None)"

section \<open>Notions of the specification\<close>

text \<open>
  The string \<open>s\<close> holds, from position \<open>i\<close> on, the letters \<open>PT\<close>, the non-empty run of
  digits \<open>ds\<close> and the letter \<open>H\<close>.
\<close>

definition duration_token_at :: "string \<Rightarrow> nat \<Rightarrow> string \<Rightarrow> bool" where
  "duration_token_at s i ds \<longleftrightarrow>
     ds \<noteq> [] \<and> list_all is_digit ds \<and> prefix (''PT'' @ ds @ ''H'') (drop i s)"

text \<open>The string \<open>sub\<close> is a part of the string \<open>s\<close>.\<close>

definition occurs_in :: "string \<Rightarrow> string \<Rightarrow> bool" where
  "occurs_in sub s \<longleftrightarrow> (\<exists>pre post. s = pre @ sub @ post)"

text \<open>
  The integer that the label at place \<open>p\<close> yields, if any: the label is a candidate when
  its lower-cased text holds \<open>coding challenges\<close> or \<open>exercises\<close>; the digits of the text
  of the value span after it are read as a number, unless there is no such span, no
  digit, or more than 4300 digits, which Python does not parse.
\<close>

definition candidate_value :: "place \<Rightarrow> int option" where
  "candidate_value p =
     (if occurs_in ''coding challenges'' (lower (get_text_strip (place_node p)))
         \<or> occurs_in ''exercises'' (lower (get_text_strip (place_node p)))
      then
        (case List.find is_value_span (place_next_siblings p) of
           Some value_span \<Rightarrow>
             (if filter is_digit (get_text_strip value_span) = []
                 \<or> 4300 < length (filter is_digit (get_text_strip value_span))
              then None
              else Some (int_of_digits (filter is_digit (get_text_strip value_span))))
         | None \<Rightarrow> None)
      else None)"

text \<open>A list without its repetitions: of equal elements the first stays, where it is.\<close>

fun keep_first :: "string list \<Rightarrow> string list" where
  "keep_first [] = []"
| "keep_first (x # xs) = x # filter (\<lambda>y. y \<noteq> x) (keep_first xs)"

text \<open>
  The lines that the tag at place \<open>p\<close> stands for in the track scraper's rendering, by
  the type of the tag and before anything is deduplicated.
\<close>

definition emitted_lines :: "place \<Rightarrow> string list" where
  "emitted_lines p =
     (let child = place_node p; text = get_text_strip child in
      if is_tag ''h2'' child then (if text \<noteq> [] then [''## '' @ text] else [])
      else if is_tag ''h3'' child then (if text \<noteq> [] then [''### '' @ text] else [])
      else if is_tag ''p'' child then
        (if text \<noteq> [] \<and> find_named ''picture'' child = None \<and> find_named ''img'' child = None
         then [text] else [])
      else if is_tag ''ul'' child \<and> ''li'' \<notin> set (place_ancestors p) then ul_items child
      else if is_tag ''ol'' child \<and> ''li'' \<notin> set (place_ancestors p) then ol_items child
      else [])"

text \<open>
  The cells of the row of a course and of a track, in the order of the twelve columns.
  The URL of a track is the one that \<open>main\<close> has set.
\<close>

definition course_cells :: "(json \<Rightarrow> string) \<Rightarrow> course_info \<Rightarrow> json list" where
  "course_cells str_of course =
     [c_title course,
      JStr (case c_source_url course of Some u \<Rightarrow> u | None \<Rightarrow> []),
      int_cell (c_exercises_count course),
      JStr [],
      int_cell (c_courseWorkload_hours course),
      JStr ''Course'',
      c_description course,
      JStr (c_detailed_description course),
      JStr (join [CHR 0x0A] (c_skills course)),
      JStr [],
      c_educationalLevel course,
      JStr (course_price_text str_of course)]"

definition track_cells :: "track_info \<Rightarrow> json list" where
  "track_cells track =
     [t_name track,
      JStr (the (t_url track)),
      JStr [],
      JStr (t_dialect track),
      JStr (t_hours track),
      JStr ''Track'',
      t_description track,
      JStr (t_detailed_description track),
      JStr (join '', '' (t_skills track)),
      JStr (t_purpose track),
      t_level track,
      t_price track]"

text \<open>A course with the four fields that the main loop fills from the document.\<close>

definition with_document_fields ::
  "string \<Rightarrow> node list \<Rightarrow> course_info \<Rightarrow> course_info" where
  "with_document_fields url soup course =
     course\<lparr> c_source_url := Some url, c_skills := extract_skills soup,
             c_detailed_description := extract_detailed_description_course soup,
             c_exercises_count := extract_exercises_count soup \<rparr>"

section \<open>The duration parser\<close>

lemma match_PT_digits_H_iff:
  "match_PT_digits_H s = Some ds \<longleftrightarrow>
     ds \<noteq> [] \<and> list_all is_digit ds \<and> prefix (''PT'' @ ds @ ''H'') s"
proof
  assume m: "match_PT_digits_H s = Some ds"
  then have p: "prefix ''PT'' s" by (auto simp: match_PT_digits_H_def split: if_splits)
  then obtain rest where s: "s = ''PT'' @ rest" by (auto simp: prefix_def)
  from m s have ds: "ds = takeWhile is_digit rest" and ne: "ds \<noteq> []"
    and h: "prefix ''H'' (dropWhile is_digit rest)"
    by (auto simp: match_PT_digits_H_def Let_def split: if_splits)
  from h obtain post where "dropWhile is_digit rest = ''H'' @ post" by (auto simp: prefix_def)
  then have "rest = ds @ ''H'' @ post" using ds takeWhile_dropWhile_id[of is_digit rest] by simp
  moreover have "list_all is_digit ds" unfolding ds list_all_iff by (auto dest: set_takeWhileD)
  ultimately show "ds \<noteq> [] \<and> list_all is_digit ds \<and> prefix (''PT'' @ ds @ ''H'') s"
    using ne s by (auto simp: prefix_def)
next
  assume a: "ds \<noteq> [] \<and> list_all is_digit ds \<and> prefix (''PT'' @ ds @ ''H'') s"
  then obtain post where s: "s = ''PT'' @ ds @ ''H'' @ post" by (auto simp: prefix_def)
  have nd: "\<not> is_digit CHR ''H''" by (simp add: is_digit_def)
  from a have all: "\<And>x. x \<in> set ds \<Longrightarrow> is_digit x" by (simp add: list_all_iff)
  have t: "takeWhile is_digit (ds @ ''H'' @ post) = ds"
    using all nd by simp
  have d: "dropWhile is_digit (ds @ ''H'' @ post) = ''H'' @ post"
    using all nd by simp
  show "match_PT_digits_H s = Some ds"
    using a t d by (simp add: match_PT_digits_H_def s)
qed

lemma match_token: "match_PT_digits_H (drop i s) = Some ds \<longleftrightarrow> duration_token_at s i ds"
  by (simp add: match_PT_digits_H_iff duration_token_at_def)

lemma match_None_token:
  "match_PT_digits_H (drop i s) = None \<longleftrightarrow> (\<forall>ds. \<not> duration_token_at s i ds)"
  using match_token[of i s] by (cases "match_PT_digits_H (drop i s)") auto

text \<open>The search returns the match at the first position that has one.\<close>

lemma re_search_first_match:
  "re_search_PT_digits_H s = Some g \<longleftrightarrow>
     (\<exists>i. match_PT_digits_H (drop i s) = Some g \<and> (\<forall>j<i. match_PT_digits_H (drop j s) = None))"
proof (induction s)
  case Nil
  show ?case by (simp add: match_PT_digits_H_def)
next
  case (Cons c cs)
  show ?case
  proof (cases "match_PT_digits_H (c # cs)")
    case (Some g')
    have "(\<exists>i. match_PT_digits_H (drop i (c # cs)) = Some g \<and>
            (\<forall>j<i. match_PT_digits_H (drop j (c # cs)) = None)) \<longleftrightarrow> g = g'"
    proof
      assume "\<exists>i. match_PT_digits_H (drop i (c # cs)) = Some g \<and>
            (\<forall>j<i. match_PT_digits_H (drop j (c # cs)) = None)"
      then obtain i where i: "match_PT_digits_H (drop i (c # cs)) = Some g"
        and lt: "\<forall>j<i. match_PT_digits_H (drop j (c # cs)) = None" by blast
      have "i = 0"
      proof (rule ccontr)
        assume "i \<noteq> 0"
        then have "match_PT_digits_H (drop 0 (c # cs)) = None" using lt by blast
        then show False using Some by simp
      qed
      then show "g = g'" using i Some by simp
    next
      assume "g = g'"
      then have "match_PT_digits_H (drop 0 (c # cs)) = Some g" using Some by simp
      then show "\<exists>i. match_PT_digits_H (drop i (c # cs)) = Some g \<and>
            (\<forall>j<i. match_PT_digits_H (drop j (c # cs)) = None)" by blast
    qed
    then show ?thesis using Some by auto
  next
    case None
    have "(\<exists>i. match_PT_digits_H (drop i (c # cs)) = Some g \<and>
            (\<forall>j<i. match_PT_digits_H (drop j (c # cs)) = None)) \<longleftrightarrow>
          (\<exists>i. match_PT_digits_H (drop i cs) = Some g \<and>
            (\<forall>j<i. match_PT_digits_H (drop j cs) = None))" (is "?L \<longleftrightarrow> ?R")
    proof
      assume ?L
      then obtain i where i: "match_PT_digits_H (drop i (c # cs)) = Some g"
        and lt: "\<forall>j<i. match_PT_digits_H (drop j (c # cs)) = None" by blast
      from i None obtain k where k: "i = Suc k" by (cases i) auto
      have "match_PT_digits_H (drop k cs) = Some g" using i k by simp
      moreover have "\<forall>j<k. match_PT_digits_H (drop j cs) = None"
      proof (intro allI impI)
        fix j assume "j < k"
        then have "Suc j < i" using k by simp
        then have "match_PT_digits_H (drop (Suc j) (c # cs)) = None" using lt by blast
        then show "match_PT_digits_H (drop j cs) = None" by simp
      qed
      ultimately show ?R by blast
    next
      assume ?R
      then obtain k where k: "match_PT_digits_H (drop k cs) = Some g"
        and lt: "\<forall>j<k. match_PT_digits_H (drop j cs) = None" by blast
      have "match_PT_digits_H (drop (Suc k) (c # cs)) = Some g" using k by simp
      moreover have "\<forall>j<Suc k. match_PT_digits_H (drop j (c # cs)) = None"
      proof (intro allI impI)
        fix j assume j: "j < Suc k"
        show "match_PT_digits_H (drop j (c # cs)) = None"
        proof (cases j)
          case 0
          then show ?thesis using None by simp
        next
          case (Suc j')
          then show ?thesis using lt j by simp
        qed
      qed
      ultimately show ?L by blast
    qed
    then show ?thesis using None Cons.IH by simp
  qed
qed

lemma re_search_token:
  "re_search_PT_digits_H s = Some g \<longleftrightarrow>
     (\<exists>i. duration_token_at s i g \<and> (\<forall>j<i. \<forall>ds. \<not> duration_token_at s j ds))"
  by (simp add: re_search_first_match match_token match_None_token)

lemma re_search_None:
  "re_search_PT_digits_H s = None \<longleftrightarrow> (\<forall>i ds. \<not> duration_token_at s i ds)"
proof
  assume n: "re_search_PT_digits_H s = None"
  show "\<forall>i ds. \<not> duration_token_at s i ds"
  proof (intro allI notI)
    fix i ds assume t: "duration_token_at s i ds"
    define P where "P = (\<lambda>k. \<exists>d. duration_token_at s k d)"
    have "P i" using t by (auto simp: P_def)
    then have "P (LEAST k. P k)" and "\<And>j. j < (LEAST k. P k) \<Longrightarrow> \<not> P j"
      by (auto intro: LeastI dest: not_less_Least)
    then obtain d where "duration_token_at s (LEAST k. P k) d"
      and "\<forall>j<(LEAST k. P k). \<forall>ds. \<not> duration_token_at s j ds"
      by (auto simp: P_def)
    then have "re_search_PT_digits_H s = Some d" using re_search_token by blast
    then show False using n by simp
  qed
next
  assume "\<forall>i ds. \<not> duration_token_at s i ds"
  then have "\<And>g. re_search_PT_digits_H s \<noteq> Some g" using re_search_token by blast
  then show "re_search_PT_digits_H s = None" by (cases "re_search_PT_digits_H s") auto
qed

lemma re_search_group_digits:
  "re_search_PT_digits_H s = Some g \<Longrightarrow> g \<noteq> [] \<and> list_all is_digit g"
  unfolding re_search_token by (auto simp: duration_token_at_def)

lemma workload_hours_str:
  "workload_hours (JStr s) =
     (case re_search_PT_digits_H s of
        None \<Rightarrow> Inr None
      | Some g \<Rightarrow> if length g \<le> 4300 then Inr (Some (int_of_digits g)) else Inl ValueError)"
proof (cases "re_search_PT_digits_H s")
  case None
  then show ?thesis by (cases s) (simp_all add: workload_hours_def)
next
  case (Some g)
  then have ne: "s \<noteq> []" by (cases s) auto
  have "g \<noteq> [] \<and> list_all is_digit g" using Some by (rule re_search_group_digits)
  then have "py_int g = (if length g \<le> 4300 then Inr (int_of_digits g) else Inl ValueError)"
    by (simp add: py_int_def int_max_str_digits_def)
  then show ?thesis using Some ne by (simp add: workload_hours_def bind_err_def)
qed

text \<open>A run of 4301 zeros between \<open>PT\<close> and \<open>H\<close> raises \<open>ValueError\<close>.\<close>

lemma workload_hours_over_limit:
  "workload_hours (JStr (''PT'' @ replicate 4301 (CHR ''0'') @ ''H'')) = Inl ValueError"
proof -
  have d: "duration_token_at (''PT'' @ replicate 4301 (CHR ''0'') @ ''H'') 0 (replicate 4301 (CHR ''0''))"
    by (simp add: duration_token_at_def list_all_iff is_digit_def)
  have "re_search_PT_digits_H (''PT'' @ replicate 4301 (CHR ''0'') @ ''H'') = Some (replicate 4301 (CHR ''0''))"
    unfolding re_search_token using d by (intro exI[of _ 0]) simp
  then show ?thesis by (simp add: workload_hours_str)
qed

text \<open>The hours of a track: the text left when every \<open>PT\<close> and every \<open>H\<close> is deleted.\<close>

lemma replace_nonempty_Nil: "replace_nonempty old new [] = []"
  by (subst replace_nonempty.simps) simp

lemma replace_nonempty_skip:
  "old \<noteq> [] \<Longrightarrow> hd old \<notin> set xs \<Longrightarrow>
   replace_nonempty old new (xs @ ys) = xs @ replace_nonempty old new ys"
proof (induction xs)
  case Nil
  show ?case by simp
next
  case (Cons x xs)
  have np: "\<not> prefix old ((x # xs) @ ys)"
  proof
    assume "prefix old ((x # xs) @ ys)"
    then obtain zs where "(x # xs) @ ys = old @ zs" by (auto simp: prefix_def)
    then have "hd old = x" using Cons.prems(1) by (cases old) auto
    then show False using Cons.prems(2) by simp
  qed
  have "replace_nonempty old new ((x # xs) @ ys) = x # replace_nonempty old new (xs @ ys)"
    using np Cons.prems(1) by (subst replace_nonempty.simps) simp
  then show ?case using Cons by simp
qed

lemma digit_not_letter: "is_digit c \<Longrightarrow> c \<noteq> CHR ''P'' \<and> c \<noteq> CHR ''H''"
  by (auto simp: is_digit_def)

lemma track_hours_of_token:
  assumes "list_all is_digit ds"
  shows "track_hours (JStr (''PT'' @ ds @ ''H'')) = Inr ds"
proof -
  have nP: "CHR ''P'' \<notin> set ds" and nH: "CHR ''H'' \<notin> set ds"
    using assms digit_not_letter by (auto simp: list_all_iff)
  have "replace_nonempty ''PT'' [] (''PT'' @ ds @ ''H'') = replace_nonempty ''PT'' [] (ds @ ''H'')"
    by (subst replace_nonempty.simps) simp
  also have "\<dots> = (ds @ ''H'') @ replace_nonempty ''PT'' [] []"
    using replace_nonempty_skip[of "''PT''" "ds @ ''H''" "[]" "[]"] nP by simp
  finally have a: "replace ''PT'' [] (''PT'' @ ds @ ''H'') = ds @ ''H''"
    by (simp add: replace_def replace_nonempty_Nil)
  have "replace_nonempty ''H'' [] (ds @ ''H'') = ds @ replace_nonempty ''H'' [] ''H''"
    using replace_nonempty_skip[of "''H''" ds "[]" "''H''"] nH by simp
  also have "replace_nonempty ''H'' [] ''H'' = []"
    by (subst replace_nonempty.simps) (simp add: replace_nonempty_Nil)
  finally have b: "replace ''H'' [] (ds @ ''H'') = ds" by (simp add: replace_def)
  show ?thesis using a b by (simp add: track_hours_def)
qed

text \<open>
  Claim C1, as the code has it. The hours of a course's workload string are those of its
  leftmost part of the shape \<open>PT<digits>H\<close>, wherever in the string that part stands: a
  string that is exactly \<open>PT<digits>H\<close> gives its hour count; a string with no such part
  (the empty string too) and an absent workload give none; a longer token that holds such
  a part gives the hours of the part. All this for a run of at most 4300 digits: on a
  longer run \<open>int\<close> raises \<open>ValueError\<close>. The track scraper does not parse: of a string
  \<open>PT<digits>H\<close> it keeps the digits, as text.
\<close>

theorem workload_hours_leftmost_token:
  "(workload_hours (JStr s) = Inr (Some n) \<longleftrightarrow>
      (\<exists>i ds. duration_token_at s i ds \<and> length ds \<le> 4300 \<and> n = int_of_digits ds \<and>
              (\<forall>j<i. \<forall>ds'. \<not> duration_token_at s j ds')))
   \<and> (workload_hours (JStr s) = Inl ValueError \<longleftrightarrow>
      (\<exists>i ds. duration_token_at s i ds \<and> 4300 < length ds \<and>
              (\<forall>j<i. \<forall>ds'. \<not> duration_token_at s j ds')))
   \<and> (workload_hours (JStr s) = Inr None \<longleftrightarrow> (\<forall>i ds. \<not> duration_token_at s i ds))
   \<and> workload_hours JNull = Inr None
   \<and> (ds \<noteq> [] \<and> list_all is_digit ds \<and> length ds \<le> 4300 \<longrightarrow>
        workload_hours (JStr (''PT'' @ ds @ ''H'')) = Inr (Some (int_of_digits ds)))
   \<and> (list_all is_digit ds \<longrightarrow> track_hours (JStr (''PT'' @ ds @ ''H'')) = Inr ds)"
proof (intro conjI impI)
  show "workload_hours (JStr s) = Inr (Some n) \<longleftrightarrow>
      (\<exists>i ds. duration_token_at s i ds \<and> length ds \<le> 4300 \<and> n = int_of_digits ds \<and>
              (\<forall>j<i. \<forall>ds'. \<not> duration_token_at s j ds'))"
  proof -
    have "workload_hours (JStr s) = Inr (Some n) \<longleftrightarrow>
            (\<exists>g. re_search_PT_digits_H s = Some g \<and> length g \<le> 4300 \<and> n = int_of_digits g)"
      by (auto simp: workload_hours_str split: option.splits)
    then show ?thesis unfolding re_search_token by blast
  qed
next
  show "workload_hours (JStr s) = Inl ValueError \<longleftrightarrow>
      (\<exists>i ds. duration_token_at s i ds \<and> 4300 < length ds \<and>
              (\<forall>j<i. \<forall>ds'. \<not> duration_token_at s j ds'))"
  proof -
    have "workload_hours (JStr s) = Inl ValueError \<longleftrightarrow>
            (\<exists>g. re_search_PT_digits_H s = Some g \<and> 4300 < length g)"
      by (auto simp: workload_hours_str split: option.splits)
    then show ?thesis unfolding re_search_token by blast
  qed
next
  show "workload_hours (JStr s) = Inr None \<longleftrightarrow> (\<forall>i ds. \<not> duration_token_at s i ds)"
    by (auto simp: workload_hours_str re_search_None[symmetric] split: option.splits)
next
  show "workload_hours JNull = Inr None" by (simp add: workload_hours_def)
next
  assume a: "ds \<noteq> [] \<and> list_all is_digit ds \<and> length ds \<le> 4300"
  then have "duration_token_at (''PT'' @ ds @ ''H'') 0 ds"
    by (simp add: duration_token_at_def)
  then have "re_search_PT_digits_H (''PT'' @ ds @ ''H'') = Some ds"
    unfolding re_search_token by (intro exI[of _ 0]) simp
  then show "workload_hours (JStr (''PT'' @ ds @ ''H'')) = Inr (Some (int_of_digits ds))"
    using a by (simp add: workload_hours_str)
next
  assume "list_all is_digit ds"
  then show "track_hours (JStr (''PT'' @ ds @ ''H'')) = Inr ds"
    by (rule track_hours_of_token)
qed

text \<open>
  The theorem at \<open>PT12H\<close>, which gives 12, at \<open>P1D\<close>, which gives none, and at a run of
  4301 zeros, which raises.
\<close>

theorem workload_hours_leftmost_token_witness:
  "list_all is_digit ''12'' \<and> workload_hours (JStr ''PT12H'') = Inr (Some 12)
   \<and> workload_hours (JStr ''P1D'') = Inr None \<and> (\<forall>i ds. \<not> duration_token_at ''P1D'' i ds)
   \<and> track_hours (JStr ''PT12H'') = Inr ''12''
   \<and> workload_hours (JStr (''PT'' @ replicate 4301 (CHR ''0'') @ ''H'')) = Inl ValueError"
proof -
  have h: "''12'' \<noteq> [] \<and> list_all is_digit ''12'' \<and> length ''12'' \<le> 4300"
    by (simp add: is_digit_def)
  have "workload_hours (JStr (''PT'' @ ''12'' @ ''H'')) = Inr (Some (int_of_digits ''12''))"
    using workload_hours_leftmost_token[of "''PT12H''" 12 "''12''"] h by blast
  moreover have "int_of_digits ''12'' = 12" by (simp add: int_of_digits_def digit_value_def)
  moreover have n: "workload_hours (JStr ''P1D'') = Inr None"
    by (simp add: workload_hours_def match_PT_digits_H_def)
  moreover have "\<forall>i ds. \<not> duration_token_at ''P1D'' i ds"
    using workload_hours_leftmost_token[of "''P1D''" 0 "''1''"] n by blast
  moreover have "track_hours (JStr (''PT'' @ ''12'' @ ''H'')) = Inr ''12''"
    using workload_hours_leftmost_token[of "''PT12H''" 12 "''12''"] h by blast
  moreover have "workload_hours (JStr (''PT'' @ replicate 4301 (CHR ''0'') @ ''H'')) = Inl ValueError"
  proof -
    let ?s = "''PT'' @ replicate 4301 (CHR ''0'') @ ''H''"
    have "duration_token_at ?s 0 (replicate 4301 (CHR ''0''))"
      by (simp add: duration_token_at_def list_all_iff is_digit_def)
    then have "\<exists>i ds. duration_token_at ?s i ds \<and> 4300 < length ds \<and>
              (\<forall>j<i. \<forall>ds'. \<not> duration_token_at ?s j ds')"
      by (intro exI[of _ 0] exI[of _ "replicate 4301 (CHR ''0'')"]) simp
    then show ?thesis
      using workload_hours_leftmost_token[of ?s 0 "''1''"] by blast
  qed
  ultimately show ?thesis using h by simp
qed

text \<open>
  The token \<open>PT10H30M\<close> has a minute component and is not of the shape \<open>PT<digits>H\<close>;
  the course scraper parses its hours all the same, and the track scraper keeps the
  text \<open>1030M\<close> for it.
\<close>

theorem duration_partial_parse_counterexample:
  "workload_hours (JStr ''PT10H30M'') = Inr (Some 10)
   \<and> track_hours (JStr ''PT10H30M'') = Inr ''1030M''
   \<and> \<not> (\<exists>ds. ''PT10H30M'' = ''PT'' @ ds @ ''H'')"
proof (intro conjI)
  show "workload_hours (JStr ''PT10H30M'') = Inr (Some 10)"
    by (simp add: workload_hours_def match_PT_digits_H_def is_digit_def int_of_digits_def
        digit_value_def py_int_def int_max_str_digits_def bind_err_def)
next
  show "track_hours (JStr ''PT10H30M'') = Inr ''1030M''"
    by code_simp
next
  show "\<not> (\<exists>ds. ''PT10H30M'' = ''PT'' @ ds @ ''H'')"
  proof
    assume "\<exists>ds. ''PT10H30M'' = ''PT'' @ ds @ ''H''"
    then obtain ds where "''PT10H30M'' = ''PT'' @ ds @ ''H''" by blast
    then have "last ''PT10H30M'' = last (''PT'' @ ds @ ''H'')" by simp
    then show False by simp
  qed
qed

section \<open>Dialect and purpose of a track\<close>

lemma contains_occurs_in: "contains sub s \<longleftrightarrow> occurs_in sub s"
proof (induction s)
  case Nil
  show ?case by (auto simp: occurs_in_def)
next
  case (Cons c cs)
  have "occurs_in sub (c # cs) \<longleftrightarrow> prefix sub (c # cs) \<or> occurs_in sub cs"
  proof
    assume "occurs_in sub (c # cs)"
    then obtain pre post where e: "c # cs = pre @ sub @ post" by (auto simp: occurs_in_def)
    show "prefix sub (c # cs) \<or> occurs_in sub cs"
    proof (cases pre)
      case Nil
      then show ?thesis using e by (auto simp: prefix_def)
    next
      case (Cons a pre')
      then have "cs = pre' @ sub @ post" using e by simp
      then show ?thesis by (auto simp: occurs_in_def)
    qed
  next
    assume "prefix sub (c # cs) \<or> occurs_in sub cs"
    then show "occurs_in sub (c # cs)"
    proof
      assume "prefix sub (c # cs)"
      then obtain post where "c # cs = [] @ sub @ post" by (auto simp: prefix_def)
      then show ?thesis unfolding occurs_in_def by blast
    next
      assume "occurs_in sub cs"
      then obtain pre post where "cs = pre @ sub @ post" by (auto simp: occurs_in_def)
      then have "c # cs = (c # pre) @ sub @ post" by simp
      then show ?thesis unfolding occurs_in_def by blast
    qed
  qed
  then show ?case using Cons.IH by simp
qed

text \<open>
  Claim C7. The dialect of a track is read off its title: \<open>MySQL\<close> when the title holds
  \<open>MySQL\<close>, else \<open>PostgreSQL\<close> when it holds that, else \<open>SQL Server\<close> when it holds
  that, else \<open>Standard SQL\<close>; the purpose is \<open>practice\<close> exactly when the title holds
  \<open>Practice\<close>, and \<open>learn\<close> otherwise.
\<close>

theorem track_dialect_and_purpose:
  "track_dialect (JStr title) =
     Inr (if occurs_in ''MySQL'' title then ''MySQL''
          else if occurs_in ''PostgreSQL'' title then ''PostgreSQL''
          else if occurs_in ''SQL Server'' title then ''SQL Server''
          else ''Standard SQL'')
   \<and> track_purpose (JStr title) =
     Inr (if occurs_in ''Practice'' title then ''practice'' else ''learn'')"
  by (simp add: track_dialect_def track_purpose_def bind_err_def contains_occurs_in)

text \<open>The theorem at the two titles of the specification.\<close>

theorem track_dialect_and_purpose_witness:
  "track_dialect (JStr ''Advanced MySQL Practice Track'') = Inr ''MySQL''
   \<and> track_purpose (JStr ''Advanced MySQL Practice Track'') = Inr ''practice''
   \<and> track_dialect (JStr ''SQL Fundamentals'') = Inr ''Standard SQL''
   \<and> track_purpose (JStr ''SQL Fundamentals'') = Inr ''learn''"
proof -
  have a: "occurs_in ''MySQL'' ''Advanced MySQL Practice Track''"
    "occurs_in ''Practice'' ''Advanced MySQL Practice Track''"
    by (simp_all add: contains_occurs_in[symmetric])
  have b: "\<not> occurs_in ''MySQL'' ''SQL Fundamentals''"
    "\<not> occurs_in ''PostgreSQL'' ''SQL Fundamentals''"
    "\<not> occurs_in ''SQL Server'' ''SQL Fundamentals''"
    "\<not> occurs_in ''Practice'' ''SQL Fundamentals''"
    by (simp_all add: contains_occurs_in[symmetric])
  show ?thesis
    using track_dialect_and_purpose[of "''Advanced MySQL Practice Track''"]
      track_dialect_and_purpose[of "''SQL Fundamentals''"] a b
    by simp
qed

section \<open>The number of exercises\<close>

lemma py_int_digits:
  "py_int (filter is_digit t) =
     (if filter is_digit t = [] \<or> 4300 < length (filter is_digit t) then Inl ValueError
      else Inr (int_of_digits (filter is_digit t)))"
  by (auto simp: py_int_def int_max_str_digits_def list_all_iff)

lemma exercises_loop_first:
  "exercises_loop ps =
     (case List.map_filter candidate_value ps of [] \<Rightarrow> None | n # ns \<Rightarrow> Some n)"
proof (induction ps)
  case Nil
  show ?case by (simp add: List.map_filter_simps)
next
  case (Cons p ps)
  show ?case
  proof (cases "candidate_value p")
    case None
    then have "exercises_loop (p # ps) = exercises_loop ps"
      by (auto simp: candidate_value_def is_exercises_label_def Let_def contains_occurs_in
          py_int_digits split: option.splits if_splits)
    then show ?thesis using None Cons.IH by (simp add: List.map_filter_simps)
  next
    case (Some n)
    then have "exercises_loop (p # ps) = Some n"
      by (auto simp: candidate_value_def is_exercises_label_def Let_def contains_occurs_in
          py_int_digits split: option.splits if_splits)
    then show ?thesis using Some by (simp add: List.map_filter_simps)
  qed
qed

text \<open>A candidate whose value has more digits than \<open>int\<close> converts is passed over.\<close>

lemma exercises_loop_passes_over_long_value:
  "is_exercises_label (place_node p) \<Longrightarrow>
   List.find is_value_span (place_next_siblings p) = Some v \<Longrightarrow>
   4300 < length (filter is_digit (get_text_strip v)) \<Longrightarrow>
   exercises_loop (p # ps) = exercises_loop ps"
  by (simp add: py_int_digits)

lemma label_class_matches: "re_search_ci ''productSummarySection__itemLabel'' ''productSummarySection__itemLabel''"
  by code_simp
lemma value_class_matches: "re_search_ci ''productSummarySection__itemValue'' ''productSummarySection__itemValue''"
  by code_simp
lemma value_class_is_no_label: "\<not> re_search_ci ''productSummarySection__itemLabel'' ''productSummarySection__itemValue''"
  by code_simp
lemma exercises_is_candidate: "is_exercises_label (Elem ''span'' a [Text ''Exercises''])"
  by (simp add: is_exercises_label_def get_text_strip_def strip_def is_space_def lower_def lower_char_def)
lemma coding_challenges_is_candidate: "is_exercises_label (Elem ''span'' a [Text ''Coding challenges''])"
  by (simp add: is_exercises_label_def get_text_strip_def strip_def is_space_def lower_def lower_char_def)

lemma zeros_text:
  "get_text_strip (Elem nm a [Text (replicate 4301 (CHR ''0''))]) = replicate 4301 (CHR ''0'')"
  by (simp add: get_text_strip_def strip_def is_space_def dropWhile_replicate)

lemma zeros_digits:
  "filter is_digit (replicate 4301 (CHR ''0'')) = replicate 4301 (CHR ''0'')"
  by (simp add: is_digit_def)

lemma exercises_count_after_long_value: "extract_exercises_count
     [Elem ''div'' []
        [Elem ''span'' [(''class'', AList [''productSummarySection__itemLabel''])]
           [Text ''Exercises''],
         Elem ''span'' [(''class'', AList [''productSummarySection__itemValue''])]
           [Text (replicate 4301 (CHR ''0''))]],
      Elem ''div'' []
        [Elem ''span'' [(''class'', AList [''productSummarySection__itemLabel''])]
           [Text ''Coding challenges''],
         Elem ''span'' [(''class'', AList [''productSummarySection__itemValue''])]
           [Text ''7'']]] = Some 7"
  by (simp add: extract_exercises_count_def soup_places_def is_label_span_def is_value_span_def
      place_node_def place_next_siblings_def tag_with_attr_re_def is_tag_def
      label_class_matches value_class_matches value_class_is_no_label
      exercises_is_candidate coding_challenges_is_candidate zeros_text zeros_digits py_int_def
      int_max_str_digits_def get_text_strip_def strip_def is_space_def is_digit_def
      int_of_digits_def digit_value_def)

text \<open>
  Claim C6. Over the label spans of the summary in document order, the extractor
  returns the integer of the first candidate label that yields one, and none when no
  candidate does: a candidate whose value has no digit or more digits than \<open>int\<close>
  converts, or that has no value span, is passed over and the scan goes on.
\<close>

theorem exercises_count_first_parseable:
  "extract_exercises_count soup =
     (case List.map_filter candidate_value (filter is_label_span (soup_places soup)) of
        [] \<Rightarrow> None
      | n # ns \<Rightarrow> Some n)"
  by (simp add: extract_exercises_count_def exercises_loop_first)

text \<open>
  The theorem on a summary with the label \<open>Coding Challenges\<close> and the value
  \<open>12 exercises\<close>, on one whose first candidate has a value without digits, and on one
  whose first candidate has a value of 4301 zeros.
\<close>

theorem exercises_count_first_parseable_witness:
  "extract_exercises_count
     [Elem ''div'' []
        [Elem ''span'' [(''class'', AList [''productSummarySection__itemLabel''])]
           [Text ''Coding Challenges''],
         Elem ''span'' [(''class'', AList [''productSummarySection__itemValue''])]
           [Text ''12 exercises'']]] = Some 12
   \<and> (case List.map_filter candidate_value (filter is_label_span (soup_places
     [Elem ''div'' []
        [Elem ''span'' [(''class'', AList [''productSummarySection__itemLabel''])]
           [Text ''Exercises''],
         Elem ''span'' [(''class'', AList [''productSummarySection__itemValue''])]
           [Text ''soon'']],
      Elem ''div'' []
        [Elem ''span'' [(''class'', AList [''productSummarySection__itemLabel''])]
           [Text ''Coding challenges''],
         Elem ''span'' [(''class'', AList [''productSummarySection__itemValue''])]
           [Text ''7'']]])) of
        [] \<Rightarrow> None
      | n # ns \<Rightarrow> Some n) = Some 7
   \<and> (case List.map_filter candidate_value (filter is_label_span (soup_places
     [Elem ''div'' []
        [Elem ''span'' [(''class'', AList [''productSummarySection__itemLabel''])]
           [Text ''Exercises''],
         Elem ''span'' [(''class'', AList [''productSummarySection__itemValue''])]
           [Text (replicate 4301 (CHR ''0''))]],
      Elem ''div'' []
        [Elem ''span'' [(''class'', AList [''productSummarySection__itemLabel''])]
           [Text ''Coding challenges''],
         Elem ''span'' [(''class'', AList [''productSummarySection__itemValue''])]
           [Text ''7'']]])) of
        [] \<Rightarrow> None
      | n # ns \<Rightarrow> Some n) = Some 7"
proof -
  have a: "extract_exercises_count
     [Elem ''div'' []
        [Elem ''span'' [(''class'', AList [''productSummarySection__itemLabel''])]
           [Text ''Coding Challenges''],
         Elem ''span'' [(''class'', AList [''productSummarySection__itemValue''])]
           [Text ''12 exercises'']]] = Some 12"
    by code_simp
  have b: "extract_exercises_count
     [Elem ''div'' []
        [Elem ''span'' [(''class'', AList [''productSummarySection__itemLabel''])]
           [Text ''Exercises''],
         Elem ''span'' [(''class'', AList [''productSummarySection__itemValue''])]
           [Text ''soon'']],
      Elem ''div'' []
        [Elem ''span'' [(''class'', AList [''productSummarySection__itemLabel''])]
           [Text ''Coding challenges''],
         Elem ''span'' [(''class'', AList [''productSummarySection__itemValue''])]
           [Text ''7'']]] = Some 7"
    by code_simp
  show ?thesis
    using a b
      exercises_count_first_parseable[of
        "[Elem ''div'' []
        [Elem ''span'' [(''class'', AList [''productSummarySection__itemLabel''])]
           [Text ''Exercises''],
         Elem ''span'' [(''class'', AList [''productSummarySection__itemValue''])]
           [Text ''soon'']],
      Elem ''div'' []
        [Elem ''span'' [(''class'', AList [''productSummarySection__itemLabel''])]
           [Text ''Coding challenges''],
         Elem ''span'' [(''class'', AList [''productSummarySection__itemValue''])]
           [Text ''7'']]]"]
      exercises_count_after_long_value
      exercises_count_first_parseable[of
        "[Elem ''div'' []
        [Elem ''span'' [(''class'', AList [''productSummarySection__itemLabel''])]
           [Text ''Exercises''],
         Elem ''span'' [(''class'', AList [''productSummarySection__itemValue''])]
           [Text (replicate 4301 (CHR ''0''))]],
      Elem ''div'' []
        [Elem ''span'' [(''class'', AList [''productSummarySection__itemLabel''])]
           [Text ''Coding challenges''],
         Elem ''span'' [(''class'', AList [''productSummarySection__itemValue''])]
           [Text ''7'']]]"]
    by simp
qed

section \<open>The renderer of the track scraper\<close>

lemma set_keep_first: "set (keep_first xs) = set xs"
  by (induction xs) auto

lemma distinct_keep_first: "distinct (keep_first xs)"
  by (induction xs) (auto simp: set_keep_first)

lemma unique_lines_keep_first:
  "unique_lines seen xs = filter (\<lambda>y. y \<notin> seen) (keep_first xs)"
proof (induction xs arbitrary: seen)
  case Nil
  show ?case by simp
next
  case (Cons x xs)
  show ?case
  proof (cases "x \<in> seen")
    case True
    then have "filter (\<lambda>y. y \<noteq> x \<and> y \<notin> seen) (keep_first xs) = filter (\<lambda>y. y \<notin> seen) (keep_first xs)"
      by (intro filter_cong) auto
    then show ?thesis using True Cons.IH[of seen] by simp
  next
    case False
    have "filter (\<lambda>y. y \<notin> insert x seen) (keep_first xs)
          = filter (\<lambda>y. y \<noteq> x \<and> y \<notin> seen) (keep_first xs)"
      by (intro filter_cong) auto
    then show ?thesis using False Cons.IH[of "insert x seen"] by simp
  qed
qed

lemma fold_append_new:
  "fold append_new items ls = ls @ unique_lines (set ls) items"
proof (induction items arbitrary: ls)
  case Nil
  show ?case by simp
next
  case (Cons x xs)
  show ?case
  proof (cases "x \<in> set ls")
    case True
    then show ?thesis using Cons.IH[of ls] by (simp add: append_new_def)
  next
    case False
    then show ?thesis using Cons.IH[of "ls @ [x]"] by (simp add: append_new_def)
  qed
qed

lemma track_step_emitted: "track_step p ls = fold append_new (emitted_lines p) ls"
  by (simp add: track_step_def emitted_lines_def Let_def append_new_def)

lemma fold_track_step:
  "fold track_step ps ls = fold append_new (concat (map emitted_lines ps)) ls"
  by (induction ps arbitrary: ls) (simp_all add: track_step_emitted)

lemma markdown_lines_track_keep_first:
  "markdown_lines_track anc element =
     keep_first (concat (map emitted_lines (tag_places_below anc element)))"
  by (simp add: markdown_lines_track_def fold_track_step fold_append_new unique_lines_keep_first)

lemma keep_first_idem: "keep_first (keep_first xs) = keep_first xs"
proof -
  have "\<And>ys. distinct ys \<Longrightarrow> keep_first ys = ys"
  proof -
    fix ys :: "string list" show "distinct ys \<Longrightarrow> keep_first ys = ys"
    proof (induction ys)
      case Nil
      show ?case by simp
    next
      case (Cons y ys)
      then have "keep_first ys = ys" and "y \<notin> set ys" by simp_all
      then show ?case by (simp add: filter_id_conv) auto
    qed
  qed
  then show ?thesis using distinct_keep_first by blast
qed

lemma rendered_lines_track_keep_first:
  "rendered_lines_track anc element =
     keep_first (concat (map emitted_lines (tag_places_below anc element)))"
  by (simp add: rendered_lines_track_def markdown_lines_track_keep_first unique_lines_keep_first
      keep_first_idem)

lemma one_line:
  assumes "distinct xs" and "t \<in> set xs"
  shows "length (filter (\<lambda>l. l = t) xs) = 1"
proof -
  have "{x. x = t} \<inter> set xs = {t}" using assms by auto
  then show ?thesis using assms by (simp add: distinct_length_filter)
qed

lemma keep_first_append:
  "keep_first (xs @ ys) = keep_first xs @ filter (\<lambda>y. y \<notin> set xs) (keep_first ys)"
proof (induction xs)
  case Nil
  show ?case by simp
next
  case (Cons x xs)
  have "filter (\<lambda>y. y \<notin> set xs \<and> y \<noteq> x) (keep_first ys)
        = filter (\<lambda>y. y \<noteq> x \<and> y \<notin> set xs) (keep_first ys)"
    by (intro filter_cong) auto
  then show ?case using Cons by simp
qed

lemma keep_first_first_occurrence:
  assumes "t \<notin> set xs"
  shows "take (Suc (length (keep_first xs))) (keep_first (xs @ t # ys)) = keep_first xs @ [t]"
proof -
  have "keep_first (xs @ t # ys) =
          keep_first xs @ t # filter (\<lambda>y. y \<notin> set xs) (filter (\<lambda>y. y \<noteq> t) (keep_first ys))"
    using assms by (simp add: keep_first_append)
  then show ?thesis by simp
qed

lemma emitted_lines_paragraph:
  assumes "is_tag ''p'' (place_node p)" "get_text_strip (place_node p) \<noteq> []"
    "find_named ''picture'' (place_node p) = None" "find_named ''img'' (place_node p) = None"
  shows "emitted_lines p = [get_text_strip (place_node p)]"
proof -
  have "\<not> is_tag ''h2'' (place_node p)" "\<not> is_tag ''h3'' (place_node p)"
    using assms(1) by (auto simp: is_tag_def)
  then show ?thesis using assms by (simp add: emitted_lines_def Let_def)
qed

text \<open>
  Claim C2, for the track scraper's renderer. The rendered lines are the lines of the
  tags below the section in document order, each text kept at its first occurrence only:
  no line stands twice, and a paragraph with text and without an image has exactly one
  line of its text, however many paragraphs share that text. That line stands where the
  text comes first: when the lines of the tags before such a paragraph do not hold its
  text, the rendering begins with those lines, deduplicated, and the paragraph's text is
  the next line.
\<close>

theorem track_renderer_keeps_first_occurrence:
  "rendered_lines_track anc element =
     keep_first (concat (map emitted_lines (tag_places_below anc element)))
   \<and> convert_html_to_markdown_track anc element = join blank_line (rendered_lines_track anc element)
   \<and> distinct (rendered_lines_track anc element)
   \<and> (\<forall>p \<in> set (tag_places_below anc element).
        is_tag ''p'' (place_node p) \<and> get_text_strip (place_node p) \<noteq> []
        \<and> find_named ''picture'' (place_node p) = None \<and> find_named ''img'' (place_node p) = None
        \<longrightarrow> length (filter (\<lambda>l. l = get_text_strip (place_node p))
                       (rendered_lines_track anc element)) = 1)
   \<and> (tag_places_below anc element = before @ p # after
        \<and> is_tag ''p'' (place_node p) \<and> get_text_strip (place_node p) \<noteq> []
        \<and> find_named ''picture'' (place_node p) = None \<and> find_named ''img'' (place_node p) = None
        \<and> get_text_strip (place_node p) \<notin> set (concat (map emitted_lines before))
        \<longrightarrow> take (Suc (length (keep_first (concat (map emitted_lines before)))))
              (rendered_lines_track anc element)
            = keep_first (concat (map emitted_lines before)) @ [get_text_strip (place_node p)])"
proof (intro conjI ballI impI)
  show "rendered_lines_track anc element =
     keep_first (concat (map emitted_lines (tag_places_below anc element)))"
    by (rule rendered_lines_track_keep_first)
  show "convert_html_to_markdown_track anc element = join blank_line (rendered_lines_track anc element)"
    by (simp add: convert_html_to_markdown_track_def)
  show d: "distinct (rendered_lines_track anc element)"
    by (simp add: rendered_lines_track_keep_first distinct_keep_first)
  {
    fix q
    assume q: "q \<in> set (tag_places_below anc element)"
      and h: "is_tag ''p'' (place_node q) \<and> get_text_strip (place_node q) \<noteq> []
          \<and> find_named ''picture'' (place_node q) = None \<and> find_named ''img'' (place_node q) = None"
    have "emitted_lines q = [get_text_strip (place_node q)]"
      using h by (intro emitted_lines_paragraph) simp_all
    then have "get_text_strip (place_node q) \<in> set (concat (map emitted_lines (tag_places_below anc element)))"
      using q by force
    then have "get_text_strip (place_node q) \<in> set (rendered_lines_track anc element)"
      by (simp add: rendered_lines_track_keep_first set_keep_first)
    then show "length (filter (\<lambda>l. l = get_text_strip (place_node q))
                         (rendered_lines_track anc element)) = 1"
      using d by (rule one_line[rotated])
  }
  assume a: "tag_places_below anc element = before @ p # after
        \<and> is_tag ''p'' (place_node p) \<and> get_text_strip (place_node p) \<noteq> []
        \<and> find_named ''picture'' (place_node p) = None \<and> find_named ''img'' (place_node p) = None
        \<and> get_text_strip (place_node p) \<notin> set (concat (map emitted_lines before))"
  have e: "emitted_lines p = [get_text_strip (place_node p)]"
    using a by (intro emitted_lines_paragraph) simp_all
  have "rendered_lines_track anc element =
          keep_first (concat (map emitted_lines before) @ get_text_strip (place_node p)
                        # concat (map emitted_lines after))"
    using a e by (simp add: rendered_lines_track_keep_first)
  then show "take (Suc (length (keep_first (concat (map emitted_lines before)))))
              (rendered_lines_track anc element)
            = keep_first (concat (map emitted_lines before)) @ [get_text_strip (place_node p)]"
    using a keep_first_first_occurrence by simp
qed

text \<open>
  The theorem on a section with a heading and three paragraphs, the first and the third
  of the same text but of different structure.
\<close>

theorem track_renderer_keeps_first_occurrence_witness:
  "rendered_lines_track []
     (Elem ''div'' []
        [Elem ''h2'' [] [Text ''Head''], Elem ''p'' [] [Text ''Hi''], Elem ''p'' [] [Text ''Other''],
         Elem ''p'' [] [Elem ''b'' [] [Text '' Hi '']]]) = [''## Head'', ''Hi'', ''Other'']
   \<and> get_text_strip (Elem ''p'' [] [Elem ''b'' [] [Text '' Hi '']]) = ''Hi''
   \<and> length (filter (\<lambda>l. l = ''Hi'')
        (rendered_lines_track []
           (Elem ''div'' []
              [Elem ''h2'' [] [Text ''Head''], Elem ''p'' [] [Text ''Hi''], Elem ''p'' [] [Text ''Other''],
               Elem ''p'' [] [Elem ''b'' [] [Text '' Hi '']]]))) = 1
   \<and> take 2 (rendered_lines_track []
           (Elem ''div'' []
              [Elem ''h2'' [] [Text ''Head''], Elem ''p'' [] [Text ''Hi''], Elem ''p'' [] [Text ''Other''],
               Elem ''p'' [] [Elem ''b'' [] [Text '' Hi '']]])) = [''## Head'', ''Hi'']"
proof -
  let ?p1 = "Elem ''p'' [] [Text ''Hi'']"
  let ?p2 = "Elem ''p'' [] [Text ''Other'']"
  let ?p3 = "Elem ''p'' [] [Elem ''b'' [] [Text '' Hi '']]"
  let ?h = "Elem ''h2'' [] [Text ''Head'']"
  let ?R = "Elem ''div'' [] [?h, ?p1, ?p2, ?p3]"
  let ?P = "([''div''], ?p3, []) :: place"
  let ?B = "[([''div''], ?h, [?p1, ?p2, ?p3])] :: place list"
  let ?Q = "([''div''], ?p1, [?p2, ?p3]) :: place"
  let ?A = "[([''div''], ?p2, [?p3]), ([''div''], ?p3, []),
             ([''p'', ''div''], Elem ''b'' [] [Text '' Hi ''], [])] :: place list"
  note th = track_renderer_keeps_first_occurrence[of "[]" ?R ?B ?Q ?A]
  have a: "rendered_lines_track [] ?R = [''## Head'', ''Hi'', ''Other'']" by code_simp
  have m: "?P \<in> set (tag_places_below [] ?R)" by code_simp
  have g: "get_text_strip (place_node ?P) = ''Hi''" by code_simp
  have h: "is_tag ''p'' (place_node ?P) \<and> get_text_strip (place_node ?P) \<noteq> []
        \<and> find_named ''picture'' (place_node ?P) = None \<and> find_named ''img'' (place_node ?P) = None"
    by code_simp
  have "\<forall>p \<in> set (tag_places_below [] ?R).
        is_tag ''p'' (place_node p) \<and> get_text_strip (place_node p) \<noteq> []
        \<and> find_named ''picture'' (place_node p) = None \<and> find_named ''img'' (place_node p) = None
        \<longrightarrow> length (filter (\<lambda>l. l = get_text_strip (place_node p))
                       (rendered_lines_track [] ?R)) = 1"
    using th by blast
  with m h have "length (filter (\<lambda>l. l = get_text_strip (place_node ?P))
                       (rendered_lines_track [] ?R)) = 1" by blast
  then have c: "length (filter (\<lambda>l. l = ''Hi'') (rendered_lines_track [] ?R)) = 1"
    using g by simp
  have s: "tag_places_below [] ?R = ?B @ ?Q # ?A" by code_simp
  have hq: "is_tag ''p'' (place_node ?Q) \<and> get_text_strip (place_node ?Q) \<noteq> []
        \<and> find_named ''picture'' (place_node ?Q) = None \<and> find_named ''img'' (place_node ?Q) = None"
    by code_simp
  have gq: "get_text_strip (place_node ?Q) = ''Hi''" by code_simp
  have eb: "concat (map emitted_lines ?B) = [''## Head'']" by code_simp
  have nb: "get_text_strip (place_node ?Q) \<notin> set (concat (map emitted_lines ?B))"
    unfolding eb gq by simp
  have "take (Suc (length (keep_first (concat (map emitted_lines ?B)))))
              (rendered_lines_track [] ?R)
            = keep_first (concat (map emitted_lines ?B)) @ [get_text_strip (place_node ?Q)]"
    using th s hq nb by blast
  then have pos: "take 2 (rendered_lines_track [] ?R) = [''## Head'', ''Hi'']"
    unfolding eb gq by (simp add: numeral_2_eq_2)
  have "get_text_strip ?p3 = ''Hi''" by code_simp
  then show ?thesis using a c pos by blast
qed

text \<open>
  The renderer of the course scraper does not deduplicate: two paragraphs of the same
  text and of different structure give two lines.
\<close>

theorem course_renderer_repeats_line_counterexample:
  "markdown_lines_course
     (Elem ''div'' [] [Elem ''p'' [] [Text ''Hi''], Elem ''p'' [] [Elem ''b'' [] [Text ''Hi'']]])
     = [''Hi'', ''Hi'']
   \<and> convert_html_to_markdown_course
     (Elem ''div'' [] [Elem ''p'' [] [Text ''Hi''], Elem ''p'' [] [Elem ''b'' [] [Text ''Hi'']]])
     = ''Hi'' @ [CHR 0x0A, CHR 0x0A] @ ''Hi''"
  by code_simp

text \<open>
  Claim C4 fails in the track scraper: a paragraph that holds text and an image gets
  no line, although it does not hold an image only; the course scraper gives it its
  line.
\<close>

theorem track_renderer_drops_text_with_image:
  "rendered_lines_track []
     (Elem ''div'' []
        [Elem ''p'' [] [Text ''Hello'', Elem ''img'' [] []], Elem ''p'' [] [Text ''World'']])
     = [''World'']
   \<and> get_text_strip (Elem ''p'' [] [Text ''Hello'', Elem ''img'' [] []]) = ''Hello''
   \<and> markdown_lines_course
     (Elem ''div'' []
        [Elem ''p'' [] [Text ''Hello'', Elem ''img'' [] []], Elem ''p'' [] [Text ''World'']])
     = [''Hello'', ''World'']"
  by code_simp

section \<open>The JSON-LD blocks of a course document\<close>

text \<open>What holds of the claim: a block that does not decode is printed and passed over.\<close>

lemma scripts_loop_skips_undecodable:
  "node_string script = Some text \<Longrightarrow> loads text = None \<Longrightarrow>
   scripts_loop loads (script # scripts) courses printed =
     scripts_loop loads scripts courses (printed @ [JSONDecodeError])"
  by (simp add: script_block_def)

lemma find_course_json_ld_no_script:
  "ld_json_scripts soup = [] \<Longrightarrow> find_course_json_ld loads soup = Inr ([], [])"
  by (simp add: find_course_json_ld_def)

text \<open>
  Claim C5 fails on a block that raises \<open>TypeError\<close>, which the \<open>except\<close> clause does not
  name. First document: an empty script tag (its \<open>string\<close> is \<open>None\<close>) before a good
  block. Second document: a block whose \<open>timeRequired\<close> is a number before a good block.
  In both the exception leaves \<open>find_course_json_ld\<close> and the good block is lost. Third
  document, for comparison: a block that does not decode is passed over and the good
  block is returned.
\<close>

theorem find_course_json_ld_uncaught_type_error:
  "find_course_json_ld
     (map_of [(''{\"@type\": \"Course\", \"name\": \"SQL Basics\"}'',
               JObj [(''@type'', JStr ''Course''), (''name'', JStr ''SQL Basics'')])])
     [Elem ''script'' [(''type'', AStr ''application/ld+json'')] [],
      Elem ''script'' [(''type'', AStr ''application/ld+json'')]
        [Text ''{\"@type\": \"Course\", \"name\": \"SQL Basics\"}'']]
     = Inl TypeError
   \<and> find_course_json_ld
     (map_of [(''{\"@type\": \"Course\", \"timeRequired\": 90}'',
               JObj [(''@type'', JStr ''Course''), (''timeRequired'', JInt 90)]),
              (''{\"@type\": \"Course\", \"name\": \"SQL Basics\"}'',
               JObj [(''@type'', JStr ''Course''), (''name'', JStr ''SQL Basics'')])])
     [Elem ''script'' [(''type'', AStr ''application/ld+json'')]
        [Text ''{\"@type\": \"Course\", \"timeRequired\": 90}''],
      Elem ''script'' [(''type'', AStr ''application/ld+json'')]
        [Text ''{\"@type\": \"Course\", \"name\": \"SQL Basics\"}'']]
     = Inl TypeError
   \<and> find_course_json_ld
     (map_of [(''{\"@type\": \"Course\", \"name\": \"SQL Basics\"}'',
               JObj [(''@type'', JStr ''Course''), (''name'', JStr ''SQL Basics'')])])
     [Elem ''script'' [(''type'', AStr ''application/ld+json'')] [Text ''{oops''],
      Elem ''script'' [(''type'', AStr ''application/ld+json'')]
        [Text ''{\"@type\": \"Course\", \"name\": \"SQL Basics\"}'']]
     = Inr ([\<lparr>c_type = JStr ''Course'', c_title = JStr ''SQL Basics'',
               c_description = JNull, c_price = JNull, c_currency = JNull,
               c_courseWorkload_hours = None, c_educationalLevel = JNull,
               c_skills = [], c_detailed_description = [],
               c_exercises_count = None, c_source_url = None\<rparr>],
            [JSONDecodeError])"
  by code_simp

section \<open>The JSON-LD block of a track document\<close>

lemma track_course_urls_type_irrelevant:
  "track_course_urls (JObj ((''@type'', ty) # kvs)) = track_course_urls (JObj ((''@type'', ty') # kvs))"
  by (simp add: track_course_urls_def bind_err_def)

lemma track_info_of_type_irrelevant:
  "track_info_of skills dd (JObj ((''@type'', ty) # kvs)) =
   track_info_of skills dd (JObj ((''@type'', ty') # kvs))"
  unfolding track_info_of_def
  by (simp add: track_course_urls_type_irrelevant[of ty kvs ty'])

text \<open>
  Claim C3, as the code has it. The blocks are the script tags of type
  \<open>application/ld+json\<close> in document order. With fewer than two of them the extraction
  returns none; otherwise the track is built from the text of the second one alone,
  whatever the others hold, and from an object without regard to the type it declares.
\<close>

theorem track_info_from_second_script:
  "(length (ld_json_scripts soup) < 2 \<longrightarrow> extract_track_info loads soup = Inr None)
   \<and> (ld_json_scripts soup = first # second # others \<longrightarrow>
        extract_track_info loads soup =
          (case loads (get_text second) of
             None \<Rightarrow> Inr None
           | Some json_data \<Rightarrow>
               (case track_info_of (extract_skills soup) (extract_detailed_description_track soup)
                       json_data of
                  Inr track_info \<Rightarrow> Inr (Some track_info)
                | Inl e \<Rightarrow>
                    if e = JSONDecodeError \<or> e = AttributeError \<or> e = KeyError then Inr None
                    else Inl e)))
   \<and> track_info_of skills detailed_description (JObj ((''@type'', ty) # kvs)) =
       track_info_of skills detailed_description (JObj ((''@type'', ty') # kvs))"
proof (intro conjI impI)
  assume "length (ld_json_scripts soup) < 2"
  then show "extract_track_info loads soup = Inr None" by (simp add: extract_track_info_def)
next
  assume s: "ld_json_scripts soup = first # second # others"
  show "extract_track_info loads soup =
          (case loads (get_text second) of
             None \<Rightarrow> Inr None
           | Some json_data \<Rightarrow>
               (case track_info_of (extract_skills soup) (extract_detailed_description_track soup)
                       json_data of
                  Inr track_info \<Rightarrow> Inr (Some track_info)
                | Inl e \<Rightarrow>
                    if e = JSONDecodeError \<or> e = AttributeError \<or> e = KeyError then Inr None
                    else Inl e))"
    using s by (simp add: extract_track_info_def Let_def)
next
  show "track_info_of skills detailed_description (JObj ((''@type'', ty) # kvs)) =
       track_info_of skills detailed_description (JObj ((''@type'', ty') # kvs))"
    by (rule track_info_of_type_irrelevant)
qed

text \<open>
  The theorem on a document with one block, which gives none, and on a document with
  two blocks, which gives the track of the second.
\<close>

theorem track_info_from_second_script_witness:
  "extract_track_info
     (map_of [(''{\"name\": \"SQL Basics\"}'', JObj [(''name'', JStr ''SQL Basics'')])])
     [Elem ''script'' [(''type'', AStr ''application/ld+json'')]
        [Text ''{\"name\": \"SQL Basics\"}'']]
     = Inr None
   \<and> extract_track_info
     (map_of [(''{\"name\": \"Site\"}'', JObj [(''name'', JStr ''Site'')]),
              (''{\"name\": \"MySQL Practice\"}'', JObj [(''name'', JStr ''MySQL Practice'')])])
     [Elem ''script'' [(''type'', AStr ''application/ld+json'')] [Text ''{\"name\": \"Site\"}''],
      Elem ''script'' [(''type'', AStr ''application/ld+json'')]
        [Text ''{\"name\": \"MySQL Practice\"}'']]
     = Inr (Some \<lparr>t_name = JStr ''MySQL Practice'', t_description = JStr [],
                  t_detailed_description = [], t_price = JStr [], t_hours = [],
                  t_level = JStr [], t_dialect = ''MySQL'', t_purpose = ''practice'',
                  t_skills = [], t_course_urls = [], t_url = None\<rparr>)"
proof -
  let ?L1 = "map_of [(''{\"name\": \"SQL Basics\"}'', JObj [(''name'', JStr ''SQL Basics'')])]"
  let ?D1 = "[Elem ''script'' [(''type'', AStr ''application/ld+json'')]
        [Text ''{\"name\": \"SQL Basics\"}'']]"
  let ?L2 = "map_of [(''{\"name\": \"Site\"}'', JObj [(''name'', JStr ''Site'')]),
              (''{\"name\": \"MySQL Practice\"}'', JObj [(''name'', JStr ''MySQL Practice'')])]"
  let ?s1 = "Elem ''script'' [(''type'', AStr ''application/ld+json'')] [Text ''{\"name\": \"Site\"}'']"
  let ?s2 = "Elem ''script'' [(''type'', AStr ''application/ld+json'')]
        [Text ''{\"name\": \"MySQL Practice\"}'']"
  have l1: "length (ld_json_scripts ?D1) < 2" by code_simp
  have a: "extract_track_info ?L1 ?D1 = Inr None"
    using track_info_from_second_script[of ?D1 ?L1] l1 by blast
  have l2: "ld_json_scripts [?s1, ?s2] = ?s1 # ?s2 # []" by code_simp
  have "extract_track_info ?L2 [?s1, ?s2] =
          (case ?L2 (get_text ?s2) of
             None \<Rightarrow> Inr None
           | Some json_data \<Rightarrow>
               (case track_info_of (extract_skills [?s1, ?s2])
                       (extract_detailed_description_track [?s1, ?s2]) json_data of
                  Inr track_info \<Rightarrow> Inr (Some track_info)
                | Inl e \<Rightarrow>
                    if e = JSONDecodeError \<or> e = AttributeError \<or> e = KeyError then Inr None
                    else Inl e))"
    using track_info_from_second_script[of "[?s1, ?s2]" ?L2 ?s1 ?s2 "[]"] l2 by blast
  also have "\<dots> = Inr (Some \<lparr>t_name = JStr ''MySQL Practice'', t_description = JStr [],
                  t_detailed_description = [], t_price = JStr [], t_hours = [],
                  t_level = JStr [], t_dialect = ''MySQL'', t_purpose = ''practice'',
                  t_skills = [], t_course_urls = [], t_url = None\<rparr>)"
    by code_simp
  finally show ?thesis using a by blast
qed

text \<open>
  A document with three blocks, whose objects declare the types \<open>Course\<close>,
  \<open>Organization\<close> and \<open>Course\<close>: the track is built from the second block, whose declared
  type is not that of the other two, and not from the second block of type \<open>Course\<close>.
\<close>

theorem track_info_ignores_declared_type_counterexample:
  "extract_track_info
     (map_of [(''{\"@type\": \"Course\", \"name\": \"A\"}'',
               JObj [(''@type'', JStr ''Course''), (''name'', JStr ''A'')]),
              (''{\"@type\": \"Organization\", \"name\": \"B\"}'',
               JObj [(''@type'', JStr ''Organization''), (''name'', JStr ''B'')]),
              (''{\"@type\": \"Course\", \"name\": \"C\"}'',
               JObj [(''@type'', JStr ''Course''), (''name'', JStr ''C'')])])
     [Elem ''script'' [(''type'', AStr ''application/ld+json'')]
        [Text ''{\"@type\": \"Course\", \"name\": \"A\"}''],
      Elem ''script'' [(''type'', AStr ''application/ld+json'')]
        [Text ''{\"@type\": \"Organization\", \"name\": \"B\"}''],
      Elem ''script'' [(''type'', AStr ''application/ld+json'')]
        [Text ''{\"@type\": \"Course\", \"name\": \"C\"}'']]
     = Inr (Some \<lparr>t_name = JStr ''B'', t_description = JStr [],
                  t_detailed_description = [], t_price = JStr [], t_hours = [],
                  t_level = JStr [], t_dialect = ''Standard SQL'', t_purpose = ''learn'',
                  t_skills = [], t_course_urls = [], t_url = None\<rparr>)"
  by code_simp

section \<open>The CSV table\<close>

lemma course_row_cells:
  "dict_to_list fieldnames (course_row_data str_of course) = Inr (course_cells str_of course)"
  by (simp add: dict_to_list_def fieldnames_def course_row_data_def course_cells_def
      course_skills_text_def)

lemma track_row_cells:
  "t_url track = Some u \<Longrightarrow>
   bind_err (track_row track) (dict_to_list fieldnames) = Inr (track_cells track)"
  by (simp add: dict_to_list_def fieldnames_def track_row_def track_cells_def
      track_skills_str_def bind_err_def)

lemma write_courses_rows:
  "write_courses str_of all_courses rows = Inr (rows @ map (course_cells str_of) all_courses)"
  by (induction all_courses arbitrary: rows) (simp_all add: course_row_cells bind_err_def)

lemma write_tracks_rows:
  "\<forall>t \<in> set tracks_data. t_url t \<noteq> None \<Longrightarrow>
   write_tracks tracks_data rows = Inr (rows @ map track_cells tracks_data)"
proof (induction tracks_data arbitrary: rows)
  case Nil
  show ?case by simp
next
  case (Cons t ts)
  then obtain u where u: "t_url t = Some u" by auto
  have "bind_err (track_row t) (dict_to_list fieldnames) = Inr (track_cells t)"
    using u by (rule track_row_cells)
  then have "write_tracks (t # ts) rows = write_tracks ts (rows @ [track_cells t])"
    by (auto simp: bind_err_def split: sum.splits)
  then show ?case using Cons by simp
qed

lemma dict_to_list_order_irrelevant:
  assumes "distinct (map fst d)" and "distinct (map fst d')" and "set d' = set d"
  shows "dict_to_list names d' = dict_to_list names d"
proof -
  have "map_of d' = map_of d" using assms by (simp add: map_of_inject_set)
  moreover have "set (map fst d') = set (map fst d)" using assms(3) by simp
  ultimately show ?thesis unfolding dict_to_list_def by simp
qed

text \<open>
  Claim C8, as the code has it. For a non-empty list of N courses the course scraper
  writes the header row and N rows after it; for an empty list it writes no table.
  \<open>save_tracks_to_csv\<close> writes the header row and N rows for any list of N tracks, the
  empty one too. The header names the twelve columns; every row has twelve cells, in the
  order of the columns whatever the order of the items of the row's dictionary.
\<close>

theorem export_table_shape:
  "export_courses str_of all_courses =
     (if all_courses = [] then Inr None
      else Inr (Some (map JStr fieldnames # map (course_cells str_of) all_courses)))
   \<and> ((\<forall>t \<in> set tracks_data. t_url t \<noteq> None) \<longrightarrow>
        save_tracks_to_csv tracks_data = Inr (map JStr fieldnames # map track_cells tracks_data))
   \<and> fieldnames = [''title'', ''url'', ''exercises'', ''dialect'', ''hours'', ''kind'',
        ''description'', ''detailed_description'', ''skills'', ''purpose'', ''level'', ''price'']
   \<and> length (course_cells str_of course) = 12 \<and> length (track_cells track) = 12
   \<and> (distinct (map fst rowdict) \<and> set rowdict = set (course_row_data str_of course) \<longrightarrow>
        dict_to_list fieldnames rowdict = Inr (course_cells str_of course))"
proof (intro conjI impI)
  show "export_courses str_of all_courses =
     (if all_courses = [] then Inr None
      else Inr (Some (map JStr fieldnames # map (course_cells str_of) all_courses)))"
    by (simp add: export_courses_def write_courses_rows writeheader_def bind_err_def)
next
  assume "\<forall>t \<in> set tracks_data. t_url t \<noteq> None"
  then show "save_tracks_to_csv tracks_data = Inr (map JStr fieldnames # map track_cells tracks_data)"
    by (simp add: save_tracks_to_csv_def write_tracks_rows writeheader_def)
next
  show "fieldnames = [''title'', ''url'', ''exercises'', ''dialect'', ''hours'', ''kind'',
        ''description'', ''detailed_description'', ''skills'', ''purpose'', ''level'', ''price'']"
    by (simp add: fieldnames_def)
next
  show "length (course_cells str_of course) = 12" by (simp add: course_cells_def)
next
  show "length (track_cells track) = 12" by (simp add: track_cells_def)
next
  assume a: "distinct (map fst rowdict) \<and> set rowdict = set (course_row_data str_of course)"
  have "distinct (map fst (course_row_data str_of course))"
    by (simp add: course_row_data_def)
  then have "dict_to_list fieldnames rowdict = dict_to_list fieldnames (course_row_data str_of course)"
    using a by (intro dict_to_list_order_irrelevant) simp_all
  then show "dict_to_list fieldnames rowdict = Inr (course_cells str_of course)"
    by (simp add: course_row_cells)
qed

text \<open>The theorem on one course and on one track.\<close>

theorem export_table_shape_witness:
  "export_courses (\<lambda>v. case v of JStr s \<Rightarrow> s | _ \<Rightarrow> [])
     [\<lparr>c_type = JStr ''Course'', c_title = JStr ''SQL Basics'', c_description = JStr ''Intro'',
       c_price = JStr ''39'', c_currency = JStr ''USD'', c_courseWorkload_hours = Some 5,
       c_educationalLevel = JStr ''Beginner'', c_skills = [''Joins'', ''Subqueries''],
       c_detailed_description = ''Learn SQL.'', c_exercises_count = Some 12,
       c_source_url = Some ''https://example.com/c''\<rparr>]
   = Inr (Some
      [[JStr ''title'', JStr ''url'', JStr ''exercises'', JStr ''dialect'', JStr ''hours'',
        JStr ''kind'', JStr ''description'', JStr ''detailed_description'', JStr ''skills'',
        JStr ''purpose'', JStr ''level'', JStr ''price''],
       [JStr ''SQL Basics'', JStr ''https://example.com/c'', JInt 12, JStr [], JInt 5,
        JStr ''Course'', JStr ''Intro'', JStr ''Learn SQL.'',
        JStr (''Joins'' @ [CHR 0x0A] @ ''Subqueries''), JStr [], JStr ''Beginner'',
        JStr ''39 USD'']])
   \<and> save_tracks_to_csv
     [\<lparr>t_name = JStr ''MySQL Practice'', t_description = JStr ''Drills'',
       t_detailed_description = ''Practice.'', t_price = JInt 99, t_hours = ''40'',
       t_level = JStr ''Intermediate'', t_dialect = ''MySQL'', t_purpose = ''practice'',
       t_skills = [''Joins'', ''Subqueries''], t_course_urls = [],
       t_url = Some ''https://example.com/t''\<rparr>]
   = Inr
      [[JStr ''title'', JStr ''url'', JStr ''exercises'', JStr ''dialect'', JStr ''hours'',
        JStr ''kind'', JStr ''description'', JStr ''detailed_description'', JStr ''skills'',
        JStr ''purpose'', JStr ''level'', JStr ''price''],
       [JStr ''MySQL Practice'', JStr ''https://example.com/t'', JStr [], JStr ''MySQL'',
        JStr ''40'', JStr ''Track'', JStr ''Drills'', JStr ''Practice.'',
        JStr ''Joins, Subqueries'', JStr ''practice'', JStr ''Intermediate'', JInt 99]]
   \<and> dict_to_list fieldnames
       (rev (course_row_data (\<lambda>v. case v of JStr s \<Rightarrow> s | _ \<Rightarrow> [])
          \<lparr>c_type = JStr ''Course'', c_title = JStr ''SQL Basics'', c_description = JStr ''Intro'',
            c_price = JStr ''39'', c_currency = JStr ''USD'', c_courseWorkload_hours = Some 5,
            c_educationalLevel = JStr ''Beginner'', c_skills = [''Joins'', ''Subqueries''],
            c_detailed_description = ''Learn SQL.'', c_exercises_count = Some 12,
            c_source_url = Some ''https://example.com/c''\<rparr>))
     = Inr [JStr ''SQL Basics'', JStr ''https://example.com/c'', JInt 12, JStr [], JInt 5,
        JStr ''Course'', JStr ''Intro'', JStr ''Learn SQL.'',
        JStr (''Joins'' @ [CHR 0x0A] @ ''Subqueries''), JStr [], JStr ''Beginner'',
        JStr ''39 USD'']"
proof -
  let ?S = "\<lambda>v. case v of JStr s \<Rightarrow> s | _ \<Rightarrow> []"
  let ?C = "\<lparr>c_type = JStr ''Course'', c_title = JStr ''SQL Basics'', c_description = JStr ''Intro'',
       c_price = JStr ''39'', c_currency = JStr ''USD'', c_courseWorkload_hours = Some 5,
       c_educationalLevel = JStr ''Beginner'', c_skills = [''Joins'', ''Subqueries''],
       c_detailed_description = ''Learn SQL.'', c_exercises_count = Some 12,
       c_source_url = Some ''https://example.com/c''\<rparr>"
  let ?T = "\<lparr>t_name = JStr ''MySQL Practice'', t_description = JStr ''Drills'',
       t_detailed_description = ''Practice.'', t_price = JInt 99, t_hours = ''40'',
       t_level = JStr ''Intermediate'', t_dialect = ''MySQL'', t_purpose = ''practice'',
       t_skills = [''Joins'', ''Subqueries''], t_course_urls = [],
       t_url = Some ''https://example.com/t''\<rparr>"
  note th = export_table_shape[of ?S "[?C]" "[?T]" ?C ?T "rev (course_row_data ?S ?C)"]
  have u: "\<forall>t \<in> set [?T]. t_url t \<noteq> None" by simp
  have "distinct (map fst (course_row_data ?S ?C))" by (simp add: course_row_data_def)
  then have "distinct (map fst (rev (course_row_data ?S ?C)))"
    by (simp only: rev_map[symmetric] distinct_rev)
  then have d: "distinct (map fst (rev (course_row_data ?S ?C)))
           \<and> set (rev (course_row_data ?S ?C)) = set (course_row_data ?S ?C)"
    by (simp only: set_rev)
  have cc: "course_cells ?S ?C =
       [JStr ''SQL Basics'', JStr ''https://example.com/c'', JInt 12, JStr [], JInt 5,
        JStr ''Course'', JStr ''Intro'', JStr ''Learn SQL.'',
        JStr (''Joins'' @ [CHR 0x0A] @ ''Subqueries''), JStr [], JStr ''Beginner'',
        JStr ''39 USD'']"
    by (simp add: course_cells_def int_cell_def course_price_text_def)
  have tc: "track_cells ?T =
       [JStr ''MySQL Practice'', JStr ''https://example.com/t'', JStr [], JStr ''MySQL'',
        JStr ''40'', JStr ''Track'', JStr ''Drills'', JStr ''Practice.'',
        JStr ''Joins, Subqueries'', JStr ''practice'', JStr ''Intermediate'', JInt 99]"
    by (simp add: track_cells_def)
  have hd: "map JStr fieldnames =
       [JStr ''title'', JStr ''url'', JStr ''exercises'', JStr ''dialect'', JStr ''hours'',
        JStr ''kind'', JStr ''description'', JStr ''detailed_description'', JStr ''skills'',
        JStr ''purpose'', JStr ''level'', JStr ''price'']"
    by (simp add: fieldnames_def)
  have a: "export_courses ?S [?C] = Inr (Some (map JStr fieldnames # map (course_cells ?S) [?C]))"
    using th by simp
  have b: "save_tracks_to_csv [?T] = Inr (map JStr fieldnames # map track_cells [?T])"
    using th u by blast
  have c: "dict_to_list fieldnames (rev (course_row_data ?S ?C)) = Inr (course_cells ?S ?C)"
    using th d by blast
  show ?thesis
    unfolding a b c by (simp only: cc tc hd list.map)
qed

text \<open>
  For no records at all neither scraper writes a table: no header row is written.
\<close>

theorem export_no_table_for_no_records_counterexample:
  "export_courses (\<lambda>v. []) [] = Inr None
   \<and> export_tracks [] = Inr None"
  by (simp add: export_courses_def export_tracks_def)

text \<open>
  Claim C9. The ninth column is \<open>skills\<close>. In the row of a course its cell is the skills
  joined by a newline, in the row of a track the skills joined by a comma and a space;
  joining no skills gives the empty text.
\<close>

theorem skills_column:
  "fieldnames ! 8 = ''skills''
   \<and> (\<exists>row. dict_to_list fieldnames (course_row_data str_of course) = Inr row
          \<and> row ! 8 = JStr (join [CHR 0x0A] (c_skills course)))
   \<and> (t_url track \<noteq> None \<longrightarrow>
        (\<exists>row. bind_err (track_row track) (dict_to_list fieldnames) = Inr row
           \<and> row ! 8 = JStr (join '', '' (t_skills track))))
   \<and> join sep [] = []"
proof (intro conjI impI)
  show "fieldnames ! 8 = ''skills''" by (simp add: fieldnames_def)
next
  have "course_cells str_of course ! 8 = JStr (join [CHR 0x0A] (c_skills course))"
    by (simp add: course_cells_def)
  then show "\<exists>row. dict_to_list fieldnames (course_row_data str_of course) = Inr row
          \<and> row ! 8 = JStr (join [CHR 0x0A] (c_skills course))"
    using course_row_cells by blast
next
  assume "t_url track \<noteq> None"
  then obtain u where "t_url track = Some u" by auto
  then have "bind_err (track_row track) (dict_to_list fieldnames) = Inr (track_cells track)"
    by (rule track_row_cells)
  moreover have "track_cells track ! 8 = JStr (join '', '' (t_skills track))"
    by (simp add: track_cells_def)
  ultimately show "\<exists>row. bind_err (track_row track) (dict_to_list fieldnames) = Inr row
           \<and> row ! 8 = JStr (join '', '' (t_skills track))"
    by blast
next
  show "join sep [] = []" by simp
qed

text \<open>The theorem on a course and on a track with the skills Joins and Subqueries.\<close>

theorem skills_column_witness:
  "(\<exists>row. dict_to_list fieldnames (course_row_data (\<lambda>v. [])
       \<lparr>c_type = JStr ''Course'', c_title = JStr ''SQL Basics'', c_description = JStr ''Intro'',
         c_price = JNull, c_currency = JNull, c_courseWorkload_hours = Some 5,
         c_educationalLevel = JStr ''Beginner'', c_skills = [''Joins'', ''Subqueries''],
         c_detailed_description = ''Learn SQL.'', c_exercises_count = Some 12,
         c_source_url = Some ''https://example.com/c''\<rparr>) = Inr row
       \<and> row ! 8 = JStr (''Joins'' @ [CHR 0x0A] @ ''Subqueries''))
   \<and> (\<exists>row. bind_err (track_row
       \<lparr>t_name = JStr ''MySQL Practice'', t_description = JStr ''Drills'',
         t_detailed_description = ''Practice.'', t_price = JInt 99, t_hours = ''40'',
         t_level = JStr ''Intermediate'', t_dialect = ''MySQL'', t_purpose = ''practice'',
         t_skills = [''Joins'', ''Subqueries''], t_course_urls = [],
         t_url = Some ''https://example.com/t''\<rparr>) (dict_to_list fieldnames) = Inr row
       \<and> row ! 8 = JStr ''Joins, Subqueries'')"
proof -
  let ?C = "\<lparr>c_type = JStr ''Course'', c_title = JStr ''SQL Basics'', c_description = JStr ''Intro'',
         c_price = JNull, c_currency = JNull, c_courseWorkload_hours = Some 5,
         c_educationalLevel = JStr ''Beginner'', c_skills = [''Joins'', ''Subqueries''],
         c_detailed_description = ''Learn SQL.'', c_exercises_count = Some 12,
         c_source_url = Some ''https://example.com/c''\<rparr>"
  let ?T = "\<lparr>t_name = JStr ''MySQL Practice'', t_description = JStr ''Drills'',
       t_detailed_description = ''Practice.'', t_price = JInt 99, t_hours = ''40'',
       t_level = JStr ''Intermediate'', t_dialect = ''MySQL'', t_purpose = ''practice'',
       t_skills = [''Joins'', ''Subqueries''], t_course_urls = [],
       t_url = Some ''https://example.com/t''\<rparr>"
  note th = skills_column[of "\<lambda>v. []" ?C ?T "[]"]
  have u: "t_url ?T \<noteq> None" by simp
  have c: "\<exists>row. dict_to_list fieldnames (course_row_data (\<lambda>v. []) ?C) = Inr row
          \<and> row ! 8 = JStr (join [CHR 0x0A] (c_skills ?C))"
    using th by blast
  have t: "\<exists>row. bind_err (track_row ?T) (dict_to_list fieldnames) = Inr row
           \<and> row ! 8 = JStr (join '', '' (t_skills ?T))"
    using th u by blast
  have jc: "join [CHR 0x0A] (c_skills ?C) = ''Joins'' @ [CHR 0x0A] @ ''Subqueries''" by simp
  have jt: "join '', '' (t_skills ?T) = ''Joins, Subqueries''" by simp
  show ?thesis using c t unfolding jc jt by blast
qed

section \<open>The records of one course document\<close>

lemma assign_loop_map:
  "assign_loop url skills detailed_desc exercises_count courses all_courses =
     all_courses @
     map (\<lambda>course. course\<lparr> c_source_url := Some url, c_skills := skills,
                             c_detailed_description := detailed_desc,
                             c_exercises_count := exercises_count \<rparr>) courses"
  by (induction courses arbitrary: all_courses) simp_all

text \<open>
  Claim C10. When the metadata of a document yields the courses \<open>courses\<close>, the loop
  appends one record for each of them, in order: the course with the URL of the document
  and with the skills, the detailed description and the number of exercises of the
  document, which are therefore the same in all of them.
\<close>

theorem document_fields_shared:
  "find_course_json_ld loads soup = Inr (courses, printed) \<longrightarrow>
     process_document loads url soup all_courses =
       Inr (all_courses @ map (with_document_fields url soup) courses)
     \<and> (\<forall>r \<in> set (map (with_document_fields url soup) courses).
          c_source_url r = Some url \<and> c_skills r = extract_skills soup
          \<and> c_detailed_description r = extract_detailed_description_course soup
          \<and> c_exercises_count r = extract_exercises_count soup)"
proof (intro impI conjI ballI)
  assume f: "find_course_json_ld loads soup = Inr (courses, printed)"
  show "process_document loads url soup all_courses =
       Inr (all_courses @ map (with_document_fields url soup) courses)"
  proof (cases "courses = []")
    case True
    then show ?thesis using f by (simp add: process_document_def)
  next
    case False
    have "with_document_fields url soup = (\<lambda>course. course\<lparr> c_source_url := Some url,
             c_skills := extract_skills soup,
             c_detailed_description := extract_detailed_description_course soup,
             c_exercises_count := extract_exercises_count soup \<rparr>)"
      by (rule ext) (simp add: with_document_fields_def)
    then show ?thesis using f False by (simp add: process_document_def Let_def assign_loop_map)
  qed
next
  fix r
  assume "r \<in> set (map (with_document_fields url soup) courses)"
  then obtain c where "r = with_document_fields url soup c" by auto
  then show "c_source_url r = Some url" "c_skills r = extract_skills soup"
    "c_detailed_description r = extract_detailed_description_course soup"
    "c_exercises_count r = extract_exercises_count soup"
    by (simp_all add: with_document_fields_def)
qed

text \<open>The theorem on a document whose one block holds two courses.\<close>

theorem document_fields_shared_witness:
  "process_document
    (map_of [(''[{\"@type\": \"Course\", \"name\": \"A\"}, {\"@type\": \"Course\", \"name\": \"B\"}]'',
              JArr [JObj [(''@type'', JStr ''Course''), (''name'', JStr ''A'')],
                    JObj [(''@type'', JStr ''Course''), (''name'', JStr ''B'')]])])
    ''https://example.com/c''
    [Elem ''script'' [(''type'', AStr ''application/ld+json'')]
       [Text ''[{\"@type\": \"Course\", \"name\": \"A\"}, {\"@type\": \"Course\", \"name\": \"B\"}]''],
     Elem ''h2'' [] [Text ''Skills you will gain''],
     Elem ''ul'' [] [Elem ''li'' [] [Text ''Joins''], Elem ''li'' [] [Text ''Subqueries'']],
     Elem ''h2'' [] [Text ''Description''],
     Elem ''div'' [(''class'', AList [''content''])]
       [Elem ''div'' [(''class'', AList [''course_information''])]
          [Elem ''p'' [] [Text ''Learn SQL.'']]],
     Elem ''span'' [(''class'', AList [''productSummarySection__itemLabel''])] [Text ''Exercises''],
     Elem ''span'' [(''class'', AList [''productSummarySection__itemValue''])] [Text ''12'']]
    []
   = Inr [\<lparr>c_type = JStr ''Course'', c_title = JStr ''A'', c_description = JNull,
            c_price = JNull, c_currency = JNull, c_courseWorkload_hours = None,
            c_educationalLevel = JNull, c_skills = [''Joins'', ''Subqueries''],
            c_detailed_description = ''Learn SQL.'', c_exercises_count = Some 12,
            c_source_url = Some ''https://example.com/c''\<rparr>,
          \<lparr>c_type = JStr ''Course'', c_title = JStr ''B'', c_description = JNull,
            c_price = JNull, c_currency = JNull, c_courseWorkload_hours = None,
            c_educationalLevel = JNull, c_skills = [''Joins'', ''Subqueries''],
            c_detailed_description = ''Learn SQL.'', c_exercises_count = Some 12,
            c_source_url = Some ''https://example.com/c''\<rparr>]"
proof -
  let ?L = "map_of [(''[{\"@type\": \"Course\", \"name\": \"A\"}, {\"@type\": \"Course\", \"name\": \"B\"}]'',
              JArr [JObj [(''@type'', JStr ''Course''), (''name'', JStr ''A'')],
                    JObj [(''@type'', JStr ''Course''), (''name'', JStr ''B'')]])]"
  let ?D = "[Elem ''script'' [(''type'', AStr ''application/ld+json'')]
       [Text ''[{\"@type\": \"Course\", \"name\": \"A\"}, {\"@type\": \"Course\", \"name\": \"B\"}]''],
     Elem ''h2'' [] [Text ''Skills you will gain''],
     Elem ''ul'' [] [Elem ''li'' [] [Text ''Joins''], Elem ''li'' [] [Text ''Subqueries'']],
     Elem ''h2'' [] [Text ''Description''],
     Elem ''div'' [(''class'', AList [''content''])]
       [Elem ''div'' [(''class'', AList [''course_information''])]
          [Elem ''p'' [] [Text ''Learn SQL.'']]],
     Elem ''span'' [(''class'', AList [''productSummarySection__itemLabel''])] [Text ''Exercises''],
     Elem ''span'' [(''class'', AList [''productSummarySection__itemValue''])] [Text ''12'']]"
  let ?cs = "[\<lparr>c_type = JStr ''Course'', c_title = JStr ''A'', c_description = JNull,
            c_price = JNull, c_currency = JNull, c_courseWorkload_hours = None,
            c_educationalLevel = JNull, c_skills = [],
            c_detailed_description = [], c_exercises_count = None,
            c_source_url = None\<rparr>,
          \<lparr>c_type = JStr ''Course'', c_title = JStr ''B'', c_description = JNull,
            c_price = JNull, c_currency = JNull, c_courseWorkload_hours = None,
            c_educationalLevel = JNull, c_skills = [],
            c_detailed_description = [], c_exercises_count = None,
            c_source_url = None\<rparr>]"
  have f: "find_course_json_ld ?L ?D = Inr (?cs, [])" by code_simp
  have "process_document ?L ''https://example.com/c'' ?D [] =
          Inr ([] @ map (with_document_fields ''https://example.com/c'' ?D) ?cs)"
    using document_fields_shared[of ?L ?D ?cs "[]" "''https://example.com/c''" "[]"] f by blast
  also have "\<dots> = Inr [\<lparr>c_type = JStr ''Course'', c_title = JStr ''A'', c_description = JNull,
            c_price = JNull, c_currency = JNull, c_courseWorkload_hours = None,
            c_educationalLevel = JNull, c_skills = [''Joins'', ''Subqueries''],
            c_detailed_description = ''Learn SQL.'', c_exercises_count = Some 12,
            c_source_url = Some ''https://example.com/c''\<rparr>,
          \<lparr>c_type = JStr ''Course'', c_title = JStr ''B'', c_description = JNull,
            c_price = JNull, c_currency = JNull, c_courseWorkload_hours = None,
            c_educationalLevel = JNull, c_skills = [''Joins'', ''Subqueries''],
            c_detailed_description = ''Learn SQL.'', c_exercises_count = Some 12,
            c_source_url = Some ''https://example.com/c''\<rparr>]"
    by code_simp
  finally show ?thesis .
qed

end
